theory Spec2Isabelle
  imports Main "HOL-Library.Sublist"
begin

section \<open>Python string primitives used by the service\<close>

text \<open>
  \<^verbatim>\<open>str.split(sep)\<close> for a one-character separator: the result is never empty, and
  an empty field is kept (\<^verbatim>\<open>"a&".split("&") == ["a", ""]\<close>). The recursive call never
  returns the empty list, so the first branch of the \<open>case\<close> is never taken.
\<close>

fun split_on :: "char \<Rightarrow> string \<Rightarrow> string list" where
  "split_on c [] = [[]]"
| "split_on c (x # xs) =
     (if x = c then [] # split_on c xs
      else (case split_on c xs of [] \<Rightarrow> [[x]] | w # ws \<Rightarrow> (x # w) # ws))"

text \<open>
  \<^verbatim>\<open>str.find(sub)\<close>: the lowest index at which \<open>sub\<close> occurs, or \<open>-1\<close>.
\<close>

fun str_index :: "string \<Rightarrow> string \<Rightarrow> nat option" where
  "str_index [] sub = (if sub = [] then Some 0 else None)"
| "str_index (x # xs) sub =
     (if prefix sub (x # xs) then Some 0 else map_option Suc (str_index xs sub))"

definition str_find :: "string \<Rightarrow> string \<Rightarrow> int" where
  "str_find s sub = (case str_index s sub of None \<Rightarrow> - 1 | Some i \<Rightarrow> int i)"

section \<open>Data model\<close>

text \<open>
  Modelled from the spec: the classes \<^verbatim>\<open>SongInfo\<close>, \<^verbatim>\<open>SongInfo.StreamingData\<close> and
  \<^verbatim>\<open>SongInfo.StreamingData.Format\<close> of \<^verbatim>\<open>fuo_ytmusic.models\<close>, which the service imports.
  The spec's FormatDescriptor has a numeric format code, an optional plain URL and an
  optional ciphered-signature blob; the service reads them as \<^verbatim>\<open>itag\<close>, \<^verbatim>\<open>url\<close> and
  \<^verbatim>\<open>signatureCipher\<close>. The format code is numeric, so \<^verbatim>\<open>int(f.itag)\<close> is the code itself.
\<close>

record Format =
  itag :: int
  url :: "string option"
  signatureCipher :: "string option"

record StreamingData =
  adaptiveFormats :: "Format list"

record SongInfo =
  streamingData :: StreamingData

text \<open>
  Exceptions. \<open>AttributeError\<close> is what Python raises when the service dereferences
  \<^verbatim>\<open>None\<close> (or an object of the wrong class); \<open>Raised\<close> is an exception coming out of a
  call into a library or the network.
\<close>

datatype error = AttributeError | Raised string

text \<open>
  The calls the service makes to the outside, in the order it makes them. The list of
  them is kept in the state, so that a statement can say which calls a run made.
\<close>

datatype event =
    ApiGetSong string int
  | ApiGetSignatureTimestamp
  | SessionGet string
  | SessionHead string
  | CipherInit string
  | CipherGetSignature string

text \<open>
  The arguments of a cache key. \<^verbatim>\<open>partial(hashkey, 'song_info')\<close> applied to
  \<^verbatim>\<open>(self, video_id)\<close> is the tuple \<^verbatim>\<open>('song_info', self, video_id)\<close>; \<open>Self\<close> is the one
  service object (the class is a singleton).
\<close>

datatype arg = Self | Str string | Num int

type_synonym key = "arg list"

definition hashkey :: "arg list \<Rightarrow> key" where
  "hashkey args = args"

text \<open>What the cache stores: the results of the decorated methods.\<close>

datatype cached_value = SongInfoV SongInfo | UrlV "string option"

text \<open>
  A cache is the list of its entries (key, value, insertion time), the least recently
  used first.
\<close>

type_synonym ('k, 'v) ttl_cache = "('k \<times> 'v \<times> int) list"

text \<open>
  The outside world: the remote API, the HTTP session, the clock, and the library
  functions. A response may depend on everything that was asked before, so the remote
  ones take the list of earlier calls. \<open>'c\<close> is the class of the cipher object.
\<close>

record 'c env =
  get_song :: "event list \<Rightarrow> string \<Rightarrow> int \<Rightarrow> error + SongInfo"
  get_signatureTimestamp :: "event list \<Rightarrow> error + int"
  session_get :: "event list \<Rightarrow> string \<Rightarrow> error + string"
  session_head :: "event list \<Rightarrow> string \<Rightarrow> error + int"
  js_url :: "string \<Rightarrow> error + string"
  Cipher :: "string \<Rightarrow> error + 'c"
  get_signature :: "'c \<Rightarrow> string \<Rightarrow> error + string"
  unquote :: "string \<Rightarrow> string"
  timer :: "event list \<Rightarrow> int"

text \<open>
  The state of the process: the fields of the one \<^verbatim>\<open>YtmusicService\<close> object, the
  module's \<^verbatim>\<open>CACHE\<close>, and the calls made so far.
\<close>

record 'c state =
  js :: string
  cipher :: "'c option"
  signature_timestamp :: int
  CACHE :: "(key, cached_value) ttl_cache"
  events :: "event list"

section \<open>Statements that may raise and that change the state\<close>

type_synonym ('a, 'c) action = "'c state \<Rightarrow> (error + 'a) \<times> 'c state"

definition ok :: "'a \<Rightarrow> ('a, 'c) action" where
  "ok a st = (Inr a, st)"

definition raise :: "error \<Rightarrow> ('a, 'c) action" where
  "raise e st = (Inl e, st)"

definition seq :: "('a, 'c) action \<Rightarrow> ('a \<Rightarrow> ('b, 'c) action) \<Rightarrow> ('b, 'c) action" where
  "seq m k st = (case m st of (Inl e, st') \<Rightarrow> (Inl e, st') | (Inr a, st') \<Rightarrow> k a st')"

definition lift :: "error + 'a \<Rightarrow> ('a, 'c) action" where
  "lift r st = (r, st)"

definition log :: "event \<Rightarrow> 'c state \<Rightarrow> 'c state" where
  "log e st = st\<lparr>events := events st @ [e]\<rparr>"

text \<open>A call to the outside: the answer depends on the calls before it, and it is recorded.\<close>

definition call :: "event \<Rightarrow> (event list \<Rightarrow> error + 'a) \<Rightarrow> ('a, 'c) action" where
  "call e answer st = (answer (events st), log e st)"

definition set_js :: "string \<Rightarrow> (unit, 'c) action" where
  "set_js text st = (Inr (), st\<lparr>js := text\<rparr>)"

definition set_cipher :: "'c \<Rightarrow> (unit, 'c) action" where
  "set_cipher c st = (Inr (), st\<lparr>cipher := Some c\<rparr>)"

definition set_signature_timestamp :: "int \<Rightarrow> (unit, 'c) action" where
  "set_signature_timestamp ts st = (Inr (), st\<lparr>signature_timestamp := ts\<rparr>)"

section \<open>The result cache\<close>

text \<open>
  \<^verbatim>\<open>CACHE = TTLCache(maxsize=100, ttl=timedelta(minutes=10).seconds)\<close>.
  The \<^verbatim>\<open>seconds\<close> attribute of a \<^verbatim>\<open>timedelta\<close> is the seconds within the day.
\<close>

definition timedelta_minutes_seconds :: "int \<Rightarrow> int" where
  "timedelta_minutes_seconds m = (m * 60) mod 86400"

definition CACHE_maxsize :: nat where
  "CACHE_maxsize = 100"

definition CACHE_ttl :: int where
  "CACHE_ttl = timedelta_minutes_seconds 10"

definition remove_key :: "'k \<Rightarrow> ('k, 'v) ttl_cache \<Rightarrow> ('k, 'v) ttl_cache" where
  "remove_key k c = filter (\<lambda>e. fst e \<noteq> k) c"

definition live :: "int \<Rightarrow> int \<Rightarrow> 'k \<times> 'v \<times> int \<Rightarrow> bool" where
  "live ttl now e = (now - snd (snd e) < ttl)"

text \<open>
  Modelled from the spec: the class \<^verbatim>\<open>TTLCache\<close> of the \<^verbatim>\<open>cachetools\<close> package, which the
  service instantiates but does not define. An entry is visible only while
  \<open>now - insertion_time < ttl\<close>; a live hit returns the stored value and makes the entry
  the most recently used; an expired entry is evicted when it is next accessed.
\<close>

definition cache_get ::
  "int \<Rightarrow> int \<Rightarrow> 'k \<Rightarrow> ('k, 'v) ttl_cache \<Rightarrow> 'v option \<times> ('k, 'v) ttl_cache" where
  "cache_get ttl now k c =
     (case map_of c k of
        None \<Rightarrow> (None, c)
      | Some (v, t) \<Rightarrow>
          if live ttl now (k, v, t) then (Some v, remove_key k c @ [(k, v, t)])
          else (None, remove_key k c))"

text \<open>
  Modelled from the spec: storing into the \<^verbatim>\<open>TTLCache\<close>. The result is stored with the
  current timestamp. The size is bounded: when the cache is at capacity the expired
  entries are evicted, and if it is still at capacity the least recently used entries
  are evicted, expired or not.
\<close>

definition cache_set ::
  "nat \<Rightarrow> int \<Rightarrow> int \<Rightarrow> 'k \<Rightarrow> 'v \<Rightarrow> ('k, 'v) ttl_cache \<Rightarrow> ('k, 'v) ttl_cache" where
  "cache_set maxsize ttl now k v c =
     (let c1 = remove_key k c;
          c2 = (if maxsize \<le> length c1 then filter (live ttl now) c1 else c1);
          c3 = drop (length c2 + 1 - maxsize) c2
      in c3 @ [(k, v, now)])"

text \<open>
  Modelled from the spec: the decorator \<^verbatim>\<open>cachetools.cached(cache=CACHE, key=...)\<close>, the
  spec's \<open>get_or_compute\<close>. On a live hit it returns the stored value without invoking the
  function. On a miss or expiry it invokes the function once, stores the result with the
  current timestamp and returns it; an exception of the function propagates and nothing
  is stored.
\<close>

definition cached :: "'c env \<Rightarrow> key \<Rightarrow> (cached_value, 'c) action \<Rightarrow> (cached_value, 'c) action" where
  "cached E k func st =
     (case cache_get CACHE_ttl (timer E (events st)) k (CACHE st) of
        (Some v, c) \<Rightarrow> (Inr v, st\<lparr>CACHE := c\<rparr>)
      | (None, c) \<Rightarrow>
          (case func (st\<lparr>CACHE := c\<rparr>) of
             (Inl e, st1) \<Rightarrow> (Inl e, st1)
           | (Inr v, st1) \<Rightarrow>
               (Inr v, st1\<lparr>CACHE :=
                  cache_set CACHE_maxsize CACHE_ttl (timer E (events st1)) k v (CACHE st1)\<rparr>)))"

section \<open>The service\<close>

text \<open>\<^verbatim>\<open>__init__\<close> before it calls \<^verbatim>\<open>setup\<close>; the module's cache is empty at import.\<close>

definition init :: "'c state" where
  "init = \<lparr>js = [], cipher = None, signature_timestamp = 0, CACHE = [], events = []\<rparr>"

text \<open>
  \<^verbatim>\<open>setup\<close>: a new session and API object (they are the outside world here), and the
  signature timestamp is fetched.
\<close>

definition setup_service :: "'c env \<Rightarrow> (unit, 'c) action" where
  "setup_service E =
     seq (call ApiGetSignatureTimestamp (get_signatureTimestamp E)) set_signature_timestamp"

text \<open>
  \<^verbatim>\<open>song_info\<close> without its decorator:
  \<^verbatim>\<open>SongInfo(**self._api.get_song(video_id, self._signature_timestamp))\<close>.
\<close>

definition song_info_wrapped :: "'c env \<Rightarrow> string \<Rightarrow> (cached_value, 'c) action" where
  "song_info_wrapped E video_id st =
     seq (call (ApiGetSong video_id (signature_timestamp st))
            (\<lambda>h. get_song E h video_id (signature_timestamp st)))
         (\<lambda>si. ok (SongInfoV si)) st"

definition song_info :: "'c env \<Rightarrow> string \<Rightarrow> (cached_value, 'c) action" where
  "song_info E video_id =
     cached E (hashkey [Str ''song_info'', Self, Str video_id]) (song_info_wrapped E video_id)"

text \<open>
  \<^verbatim>\<open>_get_cipher\<close>: the embed page of the track, the URL of the player script in it, the
  script, and the cipher built from the script.
\<close>

definition get_cipher :: "'c env \<Rightarrow> string \<Rightarrow> (unit, 'c) action" where
  "get_cipher E video_id =
     (let embed_url = ''https://www.youtube.com/embed/'' @ video_id in
      seq (call (SessionGet embed_url) (\<lambda>h. session_get E h embed_url)) (\<lambda>embed_html.
      seq (lift (js_url E embed_html)) (\<lambda>u.
      seq (call (SessionGet u) (\<lambda>h. session_get E h u)) (\<lambda>text.
      seq (set_js text) (\<lambda>_.
      seq (call (CipherInit text) (\<lambda>h. Cipher E text)) set_cipher)))))"

text \<open>
  The two nested loops of \<^verbatim>\<open>_get_stream_url\<close> over the fields of the blob and the keys of
  \<^verbatim>\<open>res\<close>. The dict \<^verbatim>\<open>res\<close> has the keys \<^verbatim>\<open>'s'\<close> and \<^verbatim>\<open>'url'\<close> from its creation and the
  loop assigns to these only, so it is a function read at these two keys, and
  \<^verbatim>\<open>for key in res\<close> visits \<^verbatim>\<open>'s'\<close>, then \<^verbatim>\<open>'url'\<close>.
\<close>

definition res_keys :: "string list" where
  "res_keys = [''s'', ''url'']"

definition res_init :: "string \<Rightarrow> string" where
  "res_init = (\<lambda>key. [])"

definition parse_key :: "(string \<Rightarrow> string) \<Rightarrow> string \<Rightarrow> (string \<Rightarrow> string) \<Rightarrow> string \<Rightarrow> (string \<Rightarrow> string)" where
  "parse_key unq sig res key =
     (if 0 \<le> str_find sig (key @ ''='')
      then res(key := unq (drop (length (key @ ''='')) sig))
      else res)"

definition parse_sig :: "(string \<Rightarrow> string) \<Rightarrow> (string \<Rightarrow> string) \<Rightarrow> string \<Rightarrow> (string \<Rightarrow> string)" where
  "parse_sig unq res sig = foldl (parse_key unq sig) res res_keys"

definition parse_signatureCipher :: "(string \<Rightarrow> string) \<Rightarrow> string \<Rightarrow> (string \<Rightarrow> string)" where
  "parse_signatureCipher unq sig_ch = foldl (parse_sig unq) res_init (split_on CHR ''&'' sig_ch)"

text \<open>
  \<^verbatim>\<open>_get_stream_url(f, video_id, retry)\<close>. With \<^verbatim>\<open>retry\<close> it probes the URL it built, fetches
  a new signature timestamp when the probe answers 403, and in both cases calls itself
  with \<^verbatim>\<open>retry=False\<close>.
\<close>

function get_stream_url :: "'c env \<Rightarrow> Format \<Rightarrow> string \<Rightarrow> bool \<Rightarrow> (string option, 'c) action" where
  "get_stream_url E f video_id retry =
     (if url f \<noteq> None \<and> url f \<noteq> Some [] then ok (url f)
      else
        seq (lift (case signatureCipher f of None \<Rightarrow> Inl AttributeError | Some sig_ch \<Rightarrow> Inr sig_ch)) (\<lambda>sig_ch.
        let res = parse_signatureCipher (unquote E) sig_ch in
        seq (\<lambda>st. if js st = [] then get_cipher E video_id st else ok () st) (\<lambda>_.
        seq (\<lambda>st. lift (case cipher st of None \<Rightarrow> Inl AttributeError | Some c \<Rightarrow> Inr c) st) (\<lambda>c.
        seq (call (CipherGetSignature (res ''s'')) (\<lambda>h. get_signature E c (res ''s''))) (\<lambda>signature.
        let u = res ''url'' @ ''&sig='' @ signature in
        if retry then
          seq (call (SessionHead u) (\<lambda>h. session_head E h u)) (\<lambda>status_code.
          seq (if status_code = 403
               then seq (call ApiGetSignatureTimestamp (get_signatureTimestamp E)) set_signature_timestamp
               else ok ()) (\<lambda>_.
          get_stream_url E f video_id False))
        else ok (Some u))))))"
  by pat_completeness auto
termination
  by (relation "measure (\<lambda>(E, f, video_id, retry). if retry then 1 else 0)") auto

declare get_stream_url.simps [simp del]

text \<open>
  \<^verbatim>\<open>stream_url\<close> without its decorator: the first format whose code is the requested one
  is resolved; \<^verbatim>\<open>None\<close> when there is none.
\<close>

definition stream_url_wrapped :: "'c env \<Rightarrow> string \<Rightarrow> int \<Rightarrow> (cached_value, 'c) action" where
  "stream_url_wrapped E video_id format_code =
     seq (song_info E video_id) (\<lambda>v.
       case v of
         SongInfoV si \<Rightarrow>
           (let formats = adaptiveFormats (streamingData si) in
            case find (\<lambda>f. itag f = format_code) formats of
              Some f \<Rightarrow> seq (get_stream_url E f video_id True) (\<lambda>r. ok (UrlV r))
            | None \<Rightarrow> ok (UrlV None))
       | UrlV _ \<Rightarrow> raise AttributeError)"

definition stream_url :: "'c env \<Rightarrow> string \<Rightarrow> int \<Rightarrow> (cached_value, 'c) action" where
  "stream_url E video_id format_code =
     cached E (hashkey [Str ''stream_url'', Self, Str video_id, Num format_code])
       (stream_url_wrapped E video_id format_code)"

section \<open>Kinds of calls, and the parts of one resolution\<close>

text \<open>The calls are sorted by what they are for, so that a statement can count them.\<close>

definition is_script_fetch :: "event \<Rightarrow> bool" where
  "is_script_fetch e = (case e of SessionGet _ \<Rightarrow> True | CipherInit _ \<Rightarrow> True | _ \<Rightarrow> False)"

definition is_decode :: "event \<Rightarrow> bool" where
  "is_decode e = (case e of CipherGetSignature _ \<Rightarrow> True | _ \<Rightarrow> False)"

definition is_probe :: "event \<Rightarrow> bool" where
  "is_probe e = (case e of SessionHead _ \<Rightarrow> True | _ \<Rightarrow> False)"

definition is_refresh :: "event \<Rightarrow> bool" where
  "is_refresh e = (case e of ApiGetSignatureTimestamp \<Rightarrow> True | _ \<Rightarrow> False)"

definition is_metadata_fetch :: "event \<Rightarrow> bool" where
  "is_metadata_fetch e = (case e of ApiGetSong _ _ \<Rightarrow> True | _ \<Rightarrow> False)"

text \<open>
  One attempt of \<^verbatim>\<open>_get_stream_url\<close> on a format without a plain URL, up to the URL it
  builds (the lines from \<^verbatim>\<open>sig_ch = f.signatureCipher\<close> to \<^verbatim>\<open>_url = ...\<close>), and the probe
  with the refresh of the timestamp that follow it when \<^verbatim>\<open>retry\<close> is set. The function is
  shown below to be composed of the two.
\<close>

definition build_url :: "'c env \<Rightarrow> Format \<Rightarrow> string \<Rightarrow> (string, 'c) action" where
  "build_url E f video_id =
     seq (lift (case signatureCipher f of None \<Rightarrow> Inl AttributeError | Some sig_ch \<Rightarrow> Inr sig_ch)) (\<lambda>sig_ch.
     let res = parse_signatureCipher (unquote E) sig_ch in
     seq (\<lambda>st. if js st = [] then get_cipher E video_id st else ok () st) (\<lambda>_.
     seq (\<lambda>st. lift (case cipher st of None \<Rightarrow> Inl AttributeError | Some c \<Rightarrow> Inr c) st) (\<lambda>c.
     seq (call (CipherGetSignature (res ''s'')) (\<lambda>h. get_signature E c (res ''s''))) (\<lambda>signature.
     ok (res ''url'' @ ''&sig='' @ signature)))))"

definition probe_and_refresh :: "'c env \<Rightarrow> string \<Rightarrow> (unit, 'c) action" where
  "probe_and_refresh E u =
     seq (call (SessionHead u) (\<lambda>h. session_head E h u)) (\<lambda>status_code.
       if status_code = 403
       then seq (call ApiGetSignatureTimestamp (get_signatureTimestamp E)) set_signature_timestamp
       else ok ())"

section \<open>A concrete world\<close>

text \<open>
  The scenario of the spec: track \<^verbatim>\<open>abc123\<close> with a plain format 251 and a ciphered format
  250. The transform program reverses the signature, the probe answers with the given
  status, each call takes 1000 seconds, and the metadata depends on the timestamp it
  was requested with.
\<close>

definition demo_plain :: Format where
  "demo_plain = \<lparr>itag = 251, url = Some ''https://x/plain'', signatureCipher = None\<rparr>"

definition demo_ciphered :: "int \<Rightarrow> Format" where
  "demo_ciphered ts =
     \<lparr>itag = 250, url = None,
      signatureCipher = Some (if ts = 1 then ''s=XYZ&url=https://y/base''
                              else ''s=NEW&url=https://y/base'')\<rparr>"

definition demo_formats :: "int \<Rightarrow> Format list" where
  "demo_formats ts = [demo_plain, demo_ciphered ts]"

definition demo_env :: "int \<Rightarrow> unit env" where
  "demo_env status_code =
     \<lparr>get_song = (\<lambda>h v ts. Inr \<lparr>streamingData = \<lparr>adaptiveFormats = demo_formats ts\<rparr>\<rparr>),
      get_signatureTimestamp = (\<lambda>h. Inr (1 + int (length (filter is_refresh h)))),
      session_get = (\<lambda>h u. Inr (''GET '' @ u)),
      session_head = (\<lambda>h u. Inr status_code),
      js_url = (\<lambda>html. Inr ''https://y/player.js''),
      Cipher = (\<lambda>text. if text = [] then Inl (Raised ''RegexMatchError'') else Inr ()),
      get_signature = (\<lambda>c s. Inr (rev s)),
      unquote = (\<lambda>s. s),
      timer = (\<lambda>h. 1000 * int (length h))\<rparr>"

definition demo_state :: "unit state" where
  "demo_state =
     \<lparr>js = [], cipher = None, signature_timestamp = 1, CACHE = [],
      events = [ApiGetSignatureTimestamp]\<rparr>"

text \<open>A ciphered format whose URL field has a query string.\<close>

definition demo_query :: Format where
  "demo_query =
     \<lparr>itag = 250, url = None, signatureCipher = Some ''s=XYZ&url=https://y/base?ids=7''\<rparr>"

text \<open>A cache that is full of entries stored at time 0.\<close>

definition demo_full_cache :: "(key, cached_value) ttl_cache" where
  "demo_full_cache = map (\<lambda>i. ([Num (int i)], UrlV None, 0)) [0..<100]"

text \<open>A client that resolves one (track, format code) after the other.\<close>

fun resolve_all :: "'c env \<Rightarrow> (string \<times> int) list \<Rightarrow> 'c state \<Rightarrow> 'c state" where
  "resolve_all E [] st = st"
| "resolve_all E ((video_id, format_code) # reqs) st =
     resolve_all E reqs (snd (stream_url E video_id format_code st))"

text \<open>The concrete state once a player script has been fetched.\<close>

definition demo_cached :: "unit state" where
  "demo_cached = demo_state\<lparr>js := ''GET https://y/player.js'', cipher := Some ()\<rparr>"

section \<open>Sequencing\<close>

lemmas action_defs =
  seq_def ok_def raise_def lift_def call_def log_def set_js_def set_cipher_def
  set_signature_timestamp_def

lemmas event_kinds =
  is_script_fetch_def is_decode_def is_probe_def is_refresh_def is_metadata_fetch_def

lemma seq_ok: "seq (ok a) k = k a"
  by (rule ext) (simp add: seq_def ok_def)

lemma seq_assoc: "seq (seq m k) h = seq m (\<lambda>a. seq (k a) h)"
  by (rule ext) (simp add: seq_def split: prod.splits sum.splits)

lemma seq_Inr: "m st = (Inr a, st1) \<Longrightarrow> seq m k st = k a st1"
  by (simp add: seq_def)

lemma seq_Inl: "m st = (Inl e, st1) \<Longrightarrow> seq m k st = (Inl e, st1)"
  by (simp add: seq_def)

lemma get_stream_url_plain:
  "url f = Some u \<Longrightarrow> u \<noteq> [] \<Longrightarrow> get_stream_url E f video_id retry st = (Inr (Some u), st)"
  by (subst get_stream_url.simps) (simp add: ok_def)

lemma get_stream_url_False:
  assumes "url f = None \<or> url f = Some []"
  shows "get_stream_url E f video_id False = seq (build_url E f video_id) (\<lambda>u. ok (Some u))"
  using assms
  by (subst get_stream_url.simps)
     (auto simp add: build_url_def seq_assoc seq_ok Let_def)

lemma get_stream_url_True:
  assumes "url f = None \<or> url f = Some []"
  shows "get_stream_url E f video_id True =
     seq (build_url E f video_id) (\<lambda>u.
       seq (probe_and_refresh E u) (\<lambda>_. get_stream_url E f video_id False))"
  using assms
  by (subst get_stream_url.simps)
     (auto simp add: build_url_def probe_and_refresh_def seq_assoc seq_ok Let_def)


lemma get_cipher_frame:
  assumes "get_cipher E video_id st = (r, st1)"
  shows "CACHE st1 = CACHE st \<and> signature_timestamp st1 = signature_timestamp st
    \<and> prefix (events st) (events st1)
    \<and> filter is_decode (events st1) = filter is_decode (events st)
    \<and> filter is_probe (events st1) = filter is_probe (events st)
    \<and> filter is_refresh (events st1) = filter is_refresh (events st)
    \<and> filter is_metadata_fetch (events st1) = filter is_metadata_fetch (events st)"
  using assms
  by (auto simp add: get_cipher_def action_defs event_kinds Let_def
      split: sum.splits prod.splits)

lemma get_cipher_Inr:
  assumes "get_cipher E video_id st = (Inr x, st1)"
  shows "\<exists>c. cipher st1 = Some c \<and> Cipher E (js st1) = Inr c"
  using assms
  by (auto simp add: get_cipher_def action_defs Let_def split: sum.splits prod.splits)

lemma get_cipher_first_event:
  assumes "get_cipher E video_id st = (r, st1)"
  shows "\<exists>rest. events st1 = events st @ SessionGet (''https://www.youtube.com/embed/'' @ video_id) # rest"
  using assms
  by (auto simp add: get_cipher_def action_defs Let_def split: sum.splits prod.splits)

lemma build_url_frame:
  assumes "build_url E f video_id st = (r, st1)"
  shows "CACHE st1 = CACHE st \<and> signature_timestamp st1 = signature_timestamp st
    \<and> prefix (events st) (events st1)
    \<and> length (filter is_decode (events st1)) \<le> length (filter is_decode (events st)) + 1
    \<and> filter is_probe (events st1) = filter is_probe (events st)
    \<and> filter is_refresh (events st1) = filter is_refresh (events st)
    \<and> filter is_metadata_fetch (events st1) = filter is_metadata_fetch (events st)"
proof (cases "js st = []")
  case True
  show ?thesis
    using assms True get_cipher_frame [of E video_id st]
    by (auto simp add: build_url_def action_defs event_kinds Let_def
        split: sum.splits prod.splits option.splits)
next
  case False
  show ?thesis
    using assms False
    by (auto simp add: build_url_def action_defs event_kinds Let_def
        split: sum.splits prod.splits option.splits)
qed

lemma build_url_cached_script:
  assumes "build_url E f video_id st = (r, st1)" and "js st \<noteq> []"
  shows "js st1 = js st \<and> cipher st1 = cipher st
    \<and> filter is_script_fetch (events st1) = filter is_script_fetch (events st)"
  using assms
  by (auto simp add: build_url_def action_defs event_kinds Let_def
      split: sum.splits prod.splits option.splits)

lemma build_url_Inr:
  assumes "build_url E f video_id st = (Inr u, st1)"
  shows "\<exists>b c sg. signatureCipher f = Some b \<and> cipher st1 = Some c
    \<and> get_signature E c (parse_signatureCipher (unquote E) b ''s'') = Inr sg
    \<and> u = parse_signatureCipher (unquote E) b ''url'' @ ''&sig='' @ sg
    \<and> (js st1 = [] \<longrightarrow> Cipher E [] = Inr c)"
proof (cases "js st = []")
  case True
  show ?thesis
    using assms True get_cipher_Inr [of E video_id st]
    by (auto simp add: build_url_def action_defs Let_def
        split: sum.splits prod.splits option.splits if_splits)
next
  case False
  show ?thesis
    using assms False
    by (auto simp add: build_url_def action_defs Let_def
        split: sum.splits prod.splits option.splits)
qed

lemma build_url_again:
  assumes "js st \<noteq> []" and "cipher st = Some c" and "signatureCipher f = Some b"
    and "get_signature E c (parse_signatureCipher (unquote E) b ''s'') = Inr sg"
  shows "build_url E f video_id st =
    (Inr (parse_signatureCipher (unquote E) b ''url'' @ ''&sig='' @ sg),
     log (CipherGetSignature (parse_signatureCipher (unquote E) b ''s'')) st)"
  using assms
  by (simp add: build_url_def action_defs Let_def)


lemma seq_cases:
  assumes "seq m k st = (r, st')"
  obtains (failed) e where "m st = (Inl e, st')" and "r = Inl e"
    | (passed) a st1 where "m st = (Inr a, st1)" and "k a st1 = (r, st')"
  using assms by (auto simp add: seq_def split: prod.splits sum.splits)

lemma probe_and_refresh_frame:
  assumes "probe_and_refresh E u st = (r, st1)"
  shows "CACHE st1 = CACHE st \<and> js st1 = js st \<and> cipher st1 = cipher st
    \<and> prefix (events st) (events st1)
    \<and> filter is_decode (events st1) = filter is_decode (events st)
    \<and> filter is_script_fetch (events st1) = filter is_script_fetch (events st)
    \<and> filter is_metadata_fetch (events st1) = filter is_metadata_fetch (events st)
    \<and> length (filter is_probe (events st1)) = length (filter is_probe (events st)) + 1
    \<and> length (filter is_refresh (events st1)) \<le> length (filter is_refresh (events st)) + 1"
  using assms
  by (auto simp add: probe_and_refresh_def action_defs event_kinds
      split: sum.splits prod.splits if_splits)

lemma probe_forbidden:
  assumes "session_head E (events st) u = Inr 403"
    and "get_signatureTimestamp E (events st @ [SessionHead u]) = Inr ts"
  shows "probe_and_refresh E u st =
    (Inr (), (log ApiGetSignatureTimestamp (log (SessionHead u) st))\<lparr>signature_timestamp := ts\<rparr>)"
  using assms by (simp add: probe_and_refresh_def action_defs)

lemma probe_not_forbidden:
  assumes "session_head E (events st) u = Inr status_code" and "status_code \<noteq> 403"
  shows "probe_and_refresh E u st = (Inr (), log (SessionHead u) st)"
  using assms by (simp add: probe_and_refresh_def action_defs)

lemma attempt_frame:
  assumes "get_stream_url E f video_id False st = (r, st1)"
  shows "CACHE st1 = CACHE st \<and> signature_timestamp st1 = signature_timestamp st
    \<and> prefix (events st) (events st1)
    \<and> length (filter is_decode (events st1)) \<le> length (filter is_decode (events st)) + 1
    \<and> filter is_probe (events st1) = filter is_probe (events st)
    \<and> filter is_refresh (events st1) = filter is_refresh (events st)
    \<and> filter is_metadata_fetch (events st1) = filter is_metadata_fetch (events st)"
proof (cases "url f = None \<or> url f = Some []")
  case True
  from assms have "seq (build_url E f video_id) (\<lambda>u. ok (Some u)) st = (r, st1)"
    by (simp add: get_stream_url_False [OF True])
  then show ?thesis
  proof (cases rule: seq_cases)
    case (failed e)
    then show ?thesis using build_url_frame by blast
  next
    case (passed a st2)
    then have "st2 = st1" by (simp add: ok_def)
    with passed show ?thesis using build_url_frame by blast
  qed
next
  case False
  then obtain u where "url f = Some u" and "u \<noteq> []" by auto
  with assms show ?thesis by (simp add: get_stream_url_plain)
qed

lemma get_stream_url_frame:
  assumes "get_stream_url E f video_id retry st = (r, st')"
  shows "CACHE st' = CACHE st
    \<and> prefix (events st) (events st')
    \<and> length (filter is_decode (events st')) \<le> length (filter is_decode (events st)) + 2
    \<and> length (filter is_probe (events st')) \<le> length (filter is_probe (events st)) + 1
    \<and> length (filter is_refresh (events st')) \<le> length (filter is_refresh (events st)) + 1
    \<and> filter is_metadata_fetch (events st') = filter is_metadata_fetch (events st)"
proof (cases retry)
  case False
  with assms show ?thesis using attempt_frame [of E f video_id st r st'] by simp
next
  case retry: True
  show ?thesis
  proof (cases "url f = None \<or> url f = Some []")
    case True
    from assms retry have run: "seq (build_url E f video_id) (\<lambda>u.
        seq (probe_and_refresh E u) (\<lambda>_. get_stream_url E f video_id False)) st = (r, st')"
      by (simp add: get_stream_url_True [OF True])
    from run show ?thesis
    proof (cases rule: seq_cases)
      case (failed e)
      then show ?thesis using build_url_frame [of E f video_id st "Inl e" st'] by simp
    next
      case (passed u st1)
      note b = build_url_frame [OF passed(1)]
      from passed(2) show ?thesis
      proof (cases rule: seq_cases)
        case (failed e)
        note p = probe_and_refresh_frame [OF failed(1)]
        from b p show ?thesis by (auto intro: prefix_order.trans)
      next
        case (passed x st2)
        note p = probe_and_refresh_frame [OF passed(1)]
        note a = attempt_frame [OF passed(2)]
        from b p a show ?thesis by (auto intro: prefix_order.trans)
      qed
    qed
  next
    case False
    then obtain u where "url f = Some u" and "u \<noteq> []" by auto
    with assms show ?thesis by (simp add: get_stream_url_plain)
  qed
qed

lemma get_stream_url_cached_script:
  assumes "get_stream_url E f video_id retry st = (r, st')" and "js st \<noteq> []"
  shows "js st' = js st \<and> cipher st' = cipher st
    \<and> filter is_script_fetch (events st') = filter is_script_fetch (events st)"
proof (cases "url f = None \<or> url f = Some []")
  case plain: False
  then obtain u where "url f = Some u" and "u \<noteq> []" by auto
  with assms show ?thesis by (simp add: get_stream_url_plain)
next
  case True
  have attempt: "js st2 = js st1 \<and> cipher st2 = cipher st1
      \<and> filter is_script_fetch (events st2) = filter is_script_fetch (events st1)"
    if "get_stream_url E f video_id False st1 = (r1, st2)" and "js st1 \<noteq> []" for st1 r1 st2
  proof -
    from that have "seq (build_url E f video_id) (\<lambda>u. ok (Some u)) st1 = (r1, st2)"
      by (simp add: get_stream_url_False [OF True])
    then show ?thesis
    proof (cases rule: seq_cases)
      case (failed e)
      then show ?thesis using build_url_cached_script that(2) by blast
    next
      case (passed a st3)
      then have "st3 = st2" by (simp add: ok_def)
      with passed show ?thesis using build_url_cached_script that(2) by blast
    qed
  qed
  show ?thesis
  proof (cases retry)
    case False
    with assms attempt show ?thesis by simp
  next
    case retry: True
    from assms retry have run: "seq (build_url E f video_id) (\<lambda>u.
        seq (probe_and_refresh E u) (\<lambda>_. get_stream_url E f video_id False)) st = (r, st')"
      by (simp add: get_stream_url_True [OF True])
    from run show ?thesis
    proof (cases rule: seq_cases)
      case (failed e)
      then show ?thesis using build_url_cached_script assms(2) by blast
    next
      case (passed u st1)
      note b = build_url_cached_script [OF passed(1) assms(2)]
      from passed(2) show ?thesis
      proof (cases rule: seq_cases)
        case (failed e)
        note p = probe_and_refresh_frame [OF failed(1)]
        from b p show ?thesis by simp
      next
        case (passed x st2)
        note p = probe_and_refresh_frame [OF passed(1)]
        from b p assms(2) have "js st2 \<noteq> []" by simp
        from attempt [OF passed(2) this] b p show ?thesis by simp
      qed
    qed
  qed
qed

section \<open>The cache\<close>

lemma remove_key_length: "length (remove_key k c) \<le> length c"
  by (simp add: remove_key_def)

lemma remove_key_absent: "k \<notin> fst ` set (remove_key k c)"
  by (auto simp add: remove_key_def)

lemma remove_key_shrinks:
  assumes "map_of c k = Some x"
  shows "length (remove_key k c) < length c"
proof -
  from assms have "(k, x) \<in> set c" by (rule map_of_SomeD)
  then show ?thesis
    unfolding remove_key_def by (rule length_filter_less) simp
qed

lemma cache_get_length: "length (snd (cache_get ttl now k c)) \<le> length c"
proof (cases "map_of c k")
  case None
  then show ?thesis by (simp add: cache_get_def)
next
  case (Some x)
  from remove_key_shrinks [OF Some] show ?thesis
    using Some by (cases x) (simp add: cache_get_def)
qed

lemma cache_set_length:
  assumes "0 < maxsize"
  shows "length (cache_set maxsize ttl now k v c) \<le> maxsize"
  using assms by (simp add: cache_set_def Let_def)

lemma cache_set_entries:
  "\<exists>c3. cache_set maxsize ttl now k v c = c3 @ [(k, v, now)] \<and> k \<notin> fst ` set c3"
proof -
  define c1 where "c1 = remove_key k c"
  define c2 where "c2 = (if maxsize \<le> length c1 then filter (live ttl now) c1 else c1)"
  define c3 where "c3 = drop (length c2 + 1 - maxsize) c2"
  have "set c3 \<subseteq> set c2" unfolding c3_def by (rule set_drop_subset)
  moreover have "set c2 \<subseteq> set c1" unfolding c2_def by auto
  moreover have "k \<notin> fst ` set c1" unfolding c1_def by (rule remove_key_absent)
  ultimately have "k \<notin> fst ` set c3" by blast
  moreover have "cache_set maxsize ttl now k v c = c3 @ [(k, v, now)]"
    by (simp add: cache_set_def Let_def c1_def c2_def c3_def)
  ultimately show ?thesis by blast
qed

lemma remove_key_id: "k \<notin> fst ` set c \<Longrightarrow> remove_key k c = c"
  by (induction c) (auto simp add: remove_key_def)

lemma cache_get_stored:
  assumes "k \<notin> fst ` set c3"
  shows "cache_get ttl now' k (c3 @ [(k, v, now)]) =
    (if now' - now < ttl then (Some v, c3 @ [(k, v, now)]) else (None, c3))"
proof -
  from assms have "map_of c3 k = None" by (simp add: map_of_eq_None_iff)
  then have "map_of (c3 @ [(k, v, now)]) k = Some (v, now)"
    by (simp add: map_add_def)
  moreover have "remove_key k (c3 @ [(k, v, now)]) = c3"
    using remove_key_id [OF assms] by (simp add: remove_key_def)
  ultimately show ?thesis by (simp add: cache_get_def live_def)
qed

lemma cached_cases:
  assumes "cached E k func st = (r, st')"
  obtains (hit) v c where "cache_get CACHE_ttl (timer E (events st)) k (CACHE st) = (Some v, c)"
      and "r = Inr v" and "st' = st\<lparr>CACHE := c\<rparr>"
    | (failed) c e where "cache_get CACHE_ttl (timer E (events st)) k (CACHE st) = (None, c)"
      and "func (st\<lparr>CACHE := c\<rparr>) = (Inl e, st')" and "r = Inl e"
    | (computed) c v st1 where "cache_get CACHE_ttl (timer E (events st)) k (CACHE st) = (None, c)"
      and "func (st\<lparr>CACHE := c\<rparr>) = (Inr v, st1)" and "r = Inr v"
      and "st' = st1\<lparr>CACHE := cache_set CACHE_maxsize CACHE_ttl (timer E (events st1)) k v (CACHE st1)\<rparr>"
  using assms
  by (auto simp add: cached_def split: prod.splits option.splits sum.splits)

lemma cached_hit:
  assumes "cache_get CACHE_ttl (timer E (events st)) k (CACHE st) = (Some v, c)"
  shows "cached E k func st = (Inr v, st\<lparr>CACHE := c\<rparr>)"
  using assms by (simp add: cached_def)

lemma cached_computed:
  assumes "cache_get CACHE_ttl (timer E (events st)) k (CACHE st) = (None, c)"
    and "func (st\<lparr>CACHE := c\<rparr>) = (Inr v, st1)"
  shows "cached E k func st =
    (Inr v, st1\<lparr>CACHE := cache_set CACHE_maxsize CACHE_ttl (timer E (events st1)) k v (CACHE st1)\<rparr>)"
  using assms by (simp add: cached_def)

lemma cached_failed:
  assumes "cache_get CACHE_ttl (timer E (events st)) k (CACHE st) = (None, c)"
    and "func (st\<lparr>CACHE := c\<rparr>) = (Inl e, st1)"
  shows "cached E k func st = (Inl e, st1)"
  using assms by (simp add: cached_def)

lemma CACHE_maxsize_pos: "0 < CACHE_maxsize"
  by (simp add: CACHE_maxsize_def)

lemma cached_bounded:
  assumes "cached E k func st = (r, st')" and "length (CACHE st) \<le> CACHE_maxsize"
    and "\<And>s r1 s1. func s = (r1, s1) \<Longrightarrow> length (CACHE s) \<le> CACHE_maxsize
      \<Longrightarrow> length (CACHE s1) \<le> CACHE_maxsize"
  shows "length (CACHE st') \<le> CACHE_maxsize"
  using assms(1)
proof (cases rule: cached_cases)
  case (hit v c)
  from cache_get_length [of CACHE_ttl "timer E (events st)" k "CACHE st"] hit assms(2)
  show ?thesis by simp
next
  case (failed c e)
  from cache_get_length [of CACHE_ttl "timer E (events st)" k "CACHE st"] failed assms(2)
  have "length (CACHE (st\<lparr>CACHE := c\<rparr>)) \<le> CACHE_maxsize" by simp
  from assms(3) [OF failed(2) this] show ?thesis .
next
  case (computed c v st1)
  then show ?thesis by (simp add: cache_set_length [OF CACHE_maxsize_pos])
qed

lemma song_info_wrapped_frame:
  assumes "song_info_wrapped E video_id st = (r, st1)"
  shows "CACHE st1 = CACHE st \<and> js st1 = js st \<and> cipher st1 = cipher st
    \<and> signature_timestamp st1 = signature_timestamp st
    \<and> events st1 = events st @ [ApiGetSong video_id (signature_timestamp st)]"
  using assms
  by (auto simp add: song_info_wrapped_def action_defs split: sum.splits)

lemma song_info_frame:
  assumes "song_info E video_id st = (r, st1)"
  shows "js st1 = js st \<and> cipher st1 = cipher st
    \<and> signature_timestamp st1 = signature_timestamp st
    \<and> (events st1 = events st \<or> events st1 = events st @ [ApiGetSong video_id (signature_timestamp st)])
    \<and> (length (CACHE st) \<le> CACHE_maxsize \<longrightarrow> length (CACHE st1) \<le> CACHE_maxsize)"
proof -
  from assms have c: "cached E (hashkey [Str ''song_info'', Self, Str video_id])
      (song_info_wrapped E video_id) st = (r, st1)"
    by (simp add: song_info_def)
  have bound: "length (CACHE st) \<le> CACHE_maxsize \<longrightarrow> length (CACHE st1) \<le> CACHE_maxsize"
    using cached_bounded [OF c] song_info_wrapped_frame by metis
  from c have "js st1 = js st \<and> cipher st1 = cipher st
    \<and> signature_timestamp st1 = signature_timestamp st
    \<and> (events st1 = events st \<or> events st1 = events st @ [ApiGetSong video_id (signature_timestamp st)])"
  proof (cases rule: cached_cases)
    case (hit v c)
    then show ?thesis by simp
  next
    case (failed c e)
    from song_info_wrapped_frame [OF failed(2)] show ?thesis by simp
  next
    case (computed c v st2)
    from song_info_wrapped_frame [OF computed(2)] computed(4) show ?thesis by simp
  qed
  with bound show ?thesis by simp
qed

section \<open>Attempts and the retry\<close>

lemma attempt_build_url:
  assumes "url f = None \<or> url f = Some []"
    and "get_stream_url E f video_id False st = (Inr (Some u), st1)"
  shows "build_url E f video_id st = (Inr u, st1)"
proof -
  from assms have "seq (build_url E f video_id) (\<lambda>u. ok (Some u)) st = (Inr (Some u), st1)"
    by (simp add: get_stream_url_False)
  then show ?thesis
    by (cases rule: seq_cases) (auto simp add: ok_def)
qed

lemma build_url_attempt:
  assumes "url f = None \<or> url f = Some []"
    and "build_url E f video_id st = (Inr u, st1)"
  shows "get_stream_url E f video_id False st = (Inr (Some u), st1)"
  using assms by (simp add: get_stream_url_False seq_Inr ok_def)

lemma build_url_leaves_script:
  assumes "build_url E f video_id st = (Inr u, st1)" and "isl (Cipher E [])"
  shows "js st1 \<noteq> []"
  using build_url_Inr [OF assms(1)] assms(2) by auto

lemma second_attempt_same_url:
  assumes "build_url E f video_id st = (Inr u, st1)" and "js st1 \<noteq> []"
    and "js st2 = js st1" and "cipher st2 = cipher st1"
  shows "\<exists>b. signatureCipher f = Some b \<and> build_url E f video_id st2 =
    (Inr u, log (CipherGetSignature (parse_signatureCipher (unquote E) b ''s'')) st2)"
proof -
  from build_url_Inr [OF assms(1)] obtain b c sg where
    b: "signatureCipher f = Some b" and c: "cipher st1 = Some c"
    and sg: "get_signature E c (parse_signatureCipher (unquote E) b ''s'') = Inr sg"
    and u: "u = parse_signatureCipher (unquote E) b ''url'' @ ''&sig='' @ sg"
    by blast
  from assms(2,3) have "js st2 \<noteq> []" by simp
  moreover from c assms(4) have "cipher st2 = Some c" by simp
  ultimately show ?thesis
    using build_url_again [of st2 c f b E sg video_id] b sg u by simp
qed

lemma retry_run:
  assumes path: "url f = None \<or> url f = Some []"
    and first: "build_url E f video_id st = (Inr u, st1)"
    and script: "js st1 \<noteq> []"
    and probe: "probe_and_refresh E u st1 = (Inr x, st2)"
  shows "\<exists>b. signatureCipher f = Some b \<and> get_stream_url E f video_id True st =
    (Inr (Some u), log (CipherGetSignature (parse_signatureCipher (unquote E) b ''s'')) st2)"
proof -
  from probe_and_refresh_frame [OF probe]
  have same: "js st2 = js st1" "cipher st2 = cipher st1" by simp_all
  from second_attempt_same_url [OF first script same] obtain b where
    b: "signatureCipher f = Some b"
    and second: "build_url E f video_id st2 =
      (Inr u, log (CipherGetSignature (parse_signatureCipher (unquote E) b ''s'')) st2)"
    by blast
  from build_url_attempt [OF path second]
  have "get_stream_url E f video_id False st2 =
      (Inr (Some u), log (CipherGetSignature (parse_signatureCipher (unquote E) b ''s'')) st2)" .
  with first probe have "get_stream_url E f video_id True st =
      (Inr (Some u), log (CipherGetSignature (parse_signatureCipher (unquote E) b ''s'')) st2)"
    by (simp add: get_stream_url_True [OF path] seq_Inr)
  with b show ?thesis by blast
qed

lemma find_absent:
  assumes "format_code \<notin> set (map itag formats)"
  shows "find (\<lambda>f. itag f = format_code) formats = None"
  using assms by (auto simp add: find_None_iff)

lemma stream_url_wrapped_absent:
  assumes "song_info E video_id st = (Inr (SongInfoV si), st1)"
    and "format_code \<notin> set (map itag (adaptiveFormats (streamingData si)))"
  shows "stream_url_wrapped E video_id format_code st = (Inr (UrlV None), st1)"
  using assms(1) find_absent [OF assms(2)]
  by (simp add: stream_url_wrapped_def seq_Inr ok_def)

lemma stream_url_wrapped_plain:
  assumes "song_info E video_id st = (Inr (SongInfoV si), st1)"
    and "find (\<lambda>f. itag f = format_code) (adaptiveFormats (streamingData si)) = Some f"
    and "url f = Some u" and "u \<noteq> []"
  shows "stream_url_wrapped E video_id format_code st = (Inr (UrlV (Some u)), st1)"
proof -
  have "seq (get_stream_url E f video_id True) (\<lambda>r. ok (UrlV r)) st1 = (Inr (UrlV (Some u)), st1)"
    by (simp add: seq_def ok_def get_stream_url_plain [OF assms(3,4)])
  with assms(1,2) show ?thesis
    by (simp add: stream_url_wrapped_def seq_Inr)
qed

lemma stream_url_wrapped_cached_script:
  assumes "stream_url_wrapped E video_id format_code st = (r, st')" and "js st \<noteq> []"
  shows "js st' = js st \<and> cipher st' = cipher st
    \<and> filter is_script_fetch (events st') = filter is_script_fetch (events st)"
proof -
  from assms(1) have run: "seq (song_info E video_id) (\<lambda>v.
       case v of
         SongInfoV si \<Rightarrow>
           (let formats = adaptiveFormats (streamingData si) in
            case find (\<lambda>f. itag f = format_code) formats of
              Some f \<Rightarrow> seq (get_stream_url E f video_id True) (\<lambda>r. ok (UrlV r))
            | None \<Rightarrow> ok (UrlV None))
       | UrlV _ \<Rightarrow> raise AttributeError) st = (r, st')"
    by (simp add: stream_url_wrapped_def)
  from run show ?thesis
  proof (cases rule: seq_cases)
    case (failed e)
    from song_info_frame [OF failed(1)] show ?thesis
      by (auto simp add: event_kinds)
  next
    case (passed v st1)
    from song_info_frame [OF passed(1)]
    have s: "js st1 = js st \<and> cipher st1 = cipher st
      \<and> filter is_script_fetch (events st1) = filter is_script_fetch (events st)"
      by (auto simp add: event_kinds)
    show ?thesis
    proof (cases v)
      case (UrlV x)
      with passed(2) s show ?thesis by (simp add: raise_def)
    next
      case (SongInfoV si)
      show ?thesis
      proof (cases "find (\<lambda>f. itag f = format_code) (adaptiveFormats (streamingData si))")
        case None
        with passed(2) SongInfoV s show ?thesis by (simp add: ok_def)
      next
        case (Some f)
        with passed(2) SongInfoV
        have "seq (get_stream_url E f video_id True) (\<lambda>r. ok (UrlV r)) st1 = (r, st')"
          by simp
        then show ?thesis
        proof (cases rule: seq_cases)
          case (failed e)
          from get_stream_url_cached_script [OF failed(1)] s assms(2) show ?thesis by simp
        next
          case (passed x st2)
          then have "st2 = st'" by (simp add: ok_def)
          with get_stream_url_cached_script [OF passed(1)] s assms(2) show ?thesis by simp
        qed
      qed
    qed
  qed
qed

lemma cached_cached_script:
  assumes "cached E k func st = (r, st')"
    and "\<And>s r1 s1. func s = (r1, s1) \<Longrightarrow> js s \<noteq> [] \<Longrightarrow> js s1 = js s \<and> cipher s1 = cipher s
      \<and> filter is_script_fetch (events s1) = filter is_script_fetch (events s)"
    and "js st \<noteq> []"
  shows "js st' = js st \<and> cipher st' = cipher st
    \<and> filter is_script_fetch (events st') = filter is_script_fetch (events st)"
  using assms(1)
proof (cases rule: cached_cases)
  case (hit v c)
  then show ?thesis by simp
next
  case (failed c e)
  from assms(2) [OF failed(2)] assms(3) show ?thesis by simp
next
  case (computed c v st1)
  from assms(2) [OF computed(2)] assms(3) computed(4) show ?thesis by simp
qed

lemma stream_url_cached_script:
  assumes "stream_url E video_id format_code st = (r, st')" and "js st \<noteq> []"
  shows "js st' = js st \<and> cipher st' = cipher st
    \<and> filter is_script_fetch (events st') = filter is_script_fetch (events st)"
  using cached_cached_script [OF assms(1) [unfolded stream_url_def] _ assms(2)]
    stream_url_wrapped_cached_script by blast

section \<open>The concrete world, evaluated\<close>

lemmas cache_defs =
  cached_def cache_get_def cache_set_def remove_key_def live_def hashkey_def
  CACHE_maxsize_def CACHE_ttl_def timedelta_minutes_seconds_def

lemma demo_setup: "setup_service (demo_env status_code) init = (Inr (), demo_state)"
  by (simp add: setup_service_def init_def demo_env_def demo_state_def action_defs event_kinds)

lemma demo_song_info:
  "song_info (demo_env status_code) ''abc123'' demo_state =
     (Inr (SongInfoV \<lparr>streamingData = \<lparr>adaptiveFormats = demo_formats 1\<rparr>\<rparr>),
      demo_state\<lparr>CACHE := [([Str ''song_info'', Self, Str ''abc123''],
          SongInfoV \<lparr>streamingData = \<lparr>adaptiveFormats = demo_formats 1\<rparr>\<rparr>, 2000)],
        events := [ApiGetSignatureTimestamp, ApiGetSong ''abc123'' 1]\<rparr>)"
  by (simp add: song_info_def song_info_wrapped_def cache_defs action_defs demo_env_def
      demo_state_def)


section \<open>Properties of the resolution\<close>

text \<open>
  C3. When the selected format (the first whose code is the requested one) has a
  non-empty plain URL, \<^verbatim>\<open>stream_url\<close> returns that URL unchanged. The run makes no call
  besides the metadata fetch of \<^verbatim>\<open>song_info\<close> (none at all when that is cached): no
  script fetch, no signature decode, no probe; and \<^verbatim>\<open>_get_stream_url\<close> returns the plain
  URL without touching the state. The premises say that the result is computed, that is,
  that the cache holds no live entry for this call.
\<close>

theorem plain_url_returned_unchanged:
  assumes "cache_get CACHE_ttl (timer E (events st))
      (hashkey [Str ''stream_url'', Self, Str video_id, Num format_code]) (CACHE st) = (None, c)"
    and "song_info E video_id (st\<lparr>CACHE := c\<rparr>) = (Inr (SongInfoV si), st1)"
    and "find (\<lambda>f. itag f = format_code) (adaptiveFormats (streamingData si)) = Some f"
    and "url f = Some u" and "u \<noteq> []"
  shows "fst (stream_url E video_id format_code st) = Inr (UrlV (Some u))
    \<and> events (snd (stream_url E video_id format_code st)) = events st1
    \<and> (events st1 = events st \<or> events st1 = events st @ [ApiGetSong video_id (signature_timestamp st)])
    \<and> js (snd (stream_url E video_id format_code st)) = js st
    \<and> cipher (snd (stream_url E video_id format_code st)) = cipher st
    \<and> get_stream_url E f video_id retry st2 = (Inr (Some u), st2)"
proof -
  from stream_url_wrapped_plain [OF assms(2-5)]
  have w: "stream_url_wrapped E video_id format_code (st\<lparr>CACHE := c\<rparr>) = (Inr (UrlV (Some u)), st1)" .
  from assms(1) w
  have "stream_url E video_id format_code st = (Inr (UrlV (Some u)),
      st1\<lparr>CACHE := cache_set CACHE_maxsize CACHE_ttl (timer E (events st1))
        (hashkey [Str ''stream_url'', Self, Str video_id, Num format_code]) (UrlV (Some u)) (CACHE st1)\<rparr>)"
    by (simp add: stream_url_def cached_def)
  moreover from song_info_frame [OF assms(2)]
  have "js st1 = js st \<and> cipher st1 = cipher st
    \<and> (events st1 = events st \<or> events st1 = events st @ [ApiGetSong video_id (signature_timestamp st)])"
    by simp
  ultimately show ?thesis
    using get_stream_url_plain [OF assms(4,5)] by simp
qed

theorem plain_url_returned_unchanged_witness:
  "fst (stream_url (demo_env 200) ''abc123'' 251 demo_state) = Inr (UrlV (Some ''https://x/plain''))
   \<and> events (snd (stream_url (demo_env 200) ''abc123'' 251 demo_state)) =
       [ApiGetSignatureTimestamp, ApiGetSong ''abc123'' 1]"
proof -
  have h1: "cache_get CACHE_ttl (timer (demo_env 200) (events demo_state))
      (hashkey [Str ''stream_url'', Self, Str ''abc123'', Num 251]) (CACHE demo_state) = (None, [])"
    by (simp add: cache_get_def demo_state_def)
  have h2: "song_info (demo_env 200) ''abc123'' (demo_state\<lparr>CACHE := []\<rparr>) =
     (Inr (SongInfoV \<lparr>streamingData = \<lparr>adaptiveFormats = demo_formats 1\<rparr>\<rparr>),
      demo_state\<lparr>CACHE := [([Str ''song_info'', Self, Str ''abc123''],
          SongInfoV \<lparr>streamingData = \<lparr>adaptiveFormats = demo_formats 1\<rparr>\<rparr>, 2000)],
        events := [ApiGetSignatureTimestamp, ApiGetSong ''abc123'' 1]\<rparr>)"
    using demo_song_info [of 200] by (simp add: demo_state_def)
  have h3: "find (\<lambda>f. itag f = 251)
      (adaptiveFormats (streamingData \<lparr>streamingData = \<lparr>adaptiveFormats = demo_formats 1\<rparr>\<rparr>)) =
      Some demo_plain"
    by (simp add: demo_formats_def demo_plain_def)
  have h4: "url demo_plain = Some ''https://x/plain''"
    by (simp add: demo_plain_def)
  have h5: "''https://x/plain'' \<noteq> []" by simp
  from plain_url_returned_unchanged [OF h1 h2 h3 h4 h5]
  show ?thesis by simp
qed

text \<open>
  C4. When no format of the track's metadata has the requested code, \<^verbatim>\<open>stream_url\<close>
  returns \<^verbatim>\<open>None\<close> as a value, not as an exception, and the run makes no probe: its only
  call is the metadata fetch of \<^verbatim>\<open>song_info\<close>, if that is not cached.
\<close>

theorem absent_format_code_returns_None:
  assumes "cache_get CACHE_ttl (timer E (events st))
      (hashkey [Str ''stream_url'', Self, Str video_id, Num format_code]) (CACHE st) = (None, c)"
    and "song_info E video_id (st\<lparr>CACHE := c\<rparr>) = (Inr (SongInfoV si), st1)"
    and "format_code \<notin> set (map itag (adaptiveFormats (streamingData si)))"
  shows "fst (stream_url E video_id format_code st) = Inr (UrlV None)
    \<and> stream_url_wrapped E video_id format_code (st\<lparr>CACHE := c\<rparr>) = (Inr (UrlV None), st1)
    \<and> events (snd (stream_url E video_id format_code st)) = events st1
    \<and> (events st1 = events st \<or> events st1 = events st @ [ApiGetSong video_id (signature_timestamp st)])
    \<and> filter is_probe (events (snd (stream_url E video_id format_code st))) = filter is_probe (events st)"
proof -
  from stream_url_wrapped_absent [OF assms(2,3)]
  have w: "stream_url_wrapped E video_id format_code (st\<lparr>CACHE := c\<rparr>) = (Inr (UrlV None), st1)" .
  from assms(1) w
  have "stream_url E video_id format_code st = (Inr (UrlV None),
      st1\<lparr>CACHE := cache_set CACHE_maxsize CACHE_ttl (timer E (events st1))
        (hashkey [Str ''stream_url'', Self, Str video_id, Num format_code]) (UrlV None) (CACHE st1)\<rparr>)"
    by (simp add: stream_url_def cached_def)
  moreover from song_info_frame [OF assms(2)]
  have "events st1 = events st \<or> events st1 = events st @ [ApiGetSong video_id (signature_timestamp st)]"
    by simp
  ultimately show ?thesis
    using w by (auto simp add: event_kinds)
qed

theorem absent_format_code_returns_None_witness:
  "fst (stream_url (demo_env 200) ''abc123'' 7 demo_state) = Inr (UrlV None)
   \<and> events (snd (stream_url (demo_env 200) ''abc123'' 7 demo_state)) =
       [ApiGetSignatureTimestamp, ApiGetSong ''abc123'' 1]"
proof -
  have h1: "cache_get CACHE_ttl (timer (demo_env 200) (events demo_state))
      (hashkey [Str ''stream_url'', Self, Str ''abc123'', Num 7]) (CACHE demo_state) = (None, [])"
    by (simp add: cache_get_def demo_state_def)
  have h2: "song_info (demo_env 200) ''abc123'' (demo_state\<lparr>CACHE := []\<rparr>) =
     (Inr (SongInfoV \<lparr>streamingData = \<lparr>adaptiveFormats = demo_formats 1\<rparr>\<rparr>),
      demo_state\<lparr>CACHE := [([Str ''song_info'', Self, Str ''abc123''],
          SongInfoV \<lparr>streamingData = \<lparr>adaptiveFormats = demo_formats 1\<rparr>\<rparr>, 2000)],
        events := [ApiGetSignatureTimestamp, ApiGetSong ''abc123'' 1]\<rparr>)"
    using demo_song_info [of 200] by (simp add: demo_state_def)
  have h3: "7 \<notin> set (map itag
      (adaptiveFormats (streamingData \<lparr>streamingData = \<lparr>adaptiveFormats = demo_formats 1\<rparr>\<rparr>)))"
    by (simp add: demo_formats_def demo_plain_def demo_ciphered_def)
  from absent_format_code_returns_None [OF h1 h2 h3]
  show ?thesis by simp
qed

section \<open>The probe and the second pass\<close>

lemmas parse_defs =
  parse_signatureCipher_def parse_sig_def parse_key_def res_keys_def res_init_def str_find_def

lemma demo_parse_s:
  "parse_signatureCipher (\<lambda>s. s) ''s=XYZ&url=https://y/base'' ''s'' = ''XYZ''"
  by (simp add: parse_defs)

lemma demo_parse_url:
  "parse_signatureCipher (\<lambda>s. s) ''s=XYZ&url=https://y/base'' ''url'' = ''https://y/base''"
  by (simp add: parse_defs)

lemma demo_query_parse_s:
  "parse_signatureCipher (\<lambda>s. s) ''s=XYZ&url=https://y/base?ids=7'' ''s'' = ''l=https://y/base?ids=7''"
  by (simp add: parse_defs)

lemma demo_query_parse_url:
  "parse_signatureCipher (\<lambda>s. s) ''s=XYZ&url=https://y/base?ids=7'' ''url'' = ''https://y/base?ids=7''"
  by (simp add: parse_defs)

lemma demo_build_url:
  assumes "js st = []" and "signatureCipher f = Some b"
  shows "build_url (demo_env status_code) f ''abc123'' st =
     (Inr (parse_signatureCipher (\<lambda>s. s) b ''url'' @ ''&sig=''
           @ rev (parse_signatureCipher (\<lambda>s. s) b ''s'')),
      st\<lparr>js := ''GET https://y/player.js'', cipher := Some (),
         events := events st @ [SessionGet ''https://www.youtube.com/embed/abc123'',
           SessionGet ''https://y/player.js'', CipherInit ''GET https://y/player.js'',
           CipherGetSignature (parse_signatureCipher (\<lambda>s. s) b ''s'')]\<rparr>)"
  using assms
  by (simp add: build_url_def get_cipher_def action_defs demo_env_def Let_def)

lemma demo_probe:
  "probe_and_refresh (demo_env status_code) u st =
     (Inr (), if status_code = 403
        then st\<lparr>signature_timestamp := 1 + int (length (filter is_refresh (events st))),
                events := events st @ [SessionHead u, ApiGetSignatureTimestamp]\<rparr>
        else st\<lparr>events := events st @ [SessionHead u]\<rparr>)"
  by (simp add: probe_and_refresh_def action_defs demo_env_def event_kinds)

lemma demo_get_stream_url:
  assumes "js st = []" and "url f = None" and "signatureCipher f = Some b"
  shows "get_stream_url (demo_env status_code) f ''abc123'' True st =
     (Inr (Some (parse_signatureCipher (\<lambda>s. s) b ''url'' @ ''&sig=''
           @ rev (parse_signatureCipher (\<lambda>s. s) b ''s''))),
      st\<lparr>js := ''GET https://y/player.js'', cipher := Some (),
         signature_timestamp := (if status_code = 403
           then 1 + int (length (filter is_refresh (events st))) else signature_timestamp st),
         events := events st @ [SessionGet ''https://www.youtube.com/embed/abc123'',
           SessionGet ''https://y/player.js'', CipherInit ''GET https://y/player.js'',
           CipherGetSignature (parse_signatureCipher (\<lambda>s. s) b ''s''),
           SessionHead (parse_signatureCipher (\<lambda>s. s) b ''url'' @ ''&sig=''
             @ rev (parse_signatureCipher (\<lambda>s. s) b ''s''))]
           @ (if status_code = 403 then [ApiGetSignatureTimestamp] else [])
           @ [CipherGetSignature (parse_signatureCipher (\<lambda>s. s) b ''s'')]\<rparr>)"
proof -
  have path: "url f = None \<or> url f = Some []" using assms(2) by simp
  note first = demo_build_url [OF assms(1,3), of status_code]
  have u: "unquote (demo_env status_code) = (\<lambda>s. s)" by (simp add: demo_env_def)
  from retry_run [OF path first _ demo_probe] assms(3)
  show ?thesis by (simp add: u log_def event_kinds)
qed

text \<open>
  C10. The first attempt builds the URL \<open>u\<close> and reaches the state \<open>st1\<close> (a call with
  \<^verbatim>\<open>retry=False\<close> is one attempt without the probe, and the call with \<^verbatim>\<open>retry=True\<close>
  begins with the same steps). When the probe of \<open>u\<close> answers anything but 403, the
  stored signature timestamp is left as it was and no timestamp is requested; the
  result is that of the second pass on the state after the probe, and it is the URL of
  the first attempt. For the last part the script cached by the first attempt must not
  be the empty string, which \<^verbatim>\<open>_get_stream_url\<close> reads as "no script yet"; that is so
  whenever the \<^verbatim>\<open>Cipher\<close> constructor of the library raises on an empty script.
\<close>

theorem probe_not_forbidden_frame:
  assumes "url f = None \<or> url f = Some []"
    and "get_stream_url E f video_id False st = (Inr (Some u), st1)"
    and "session_head E (events st1) u = Inr status_code" and "status_code \<noteq> 403"
  shows "signature_timestamp (snd (get_stream_url E f video_id True st)) = signature_timestamp st
    \<and> filter is_refresh (events (snd (get_stream_url E f video_id True st))) =
        filter is_refresh (events st)
    \<and> get_stream_url E f video_id True st = get_stream_url E f video_id False (log (SessionHead u) st1)
    \<and> (js st1 \<noteq> [] \<or> isl (Cipher E []) \<longrightarrow>
         fst (get_stream_url E f video_id True st) = Inr (Some u))"
proof -
  note first = attempt_build_url [OF assms(1,2)]
  note probe = probe_not_forbidden [OF assms(3,4)]
  have run: "get_stream_url E f video_id True st =
      get_stream_url E f video_id False (log (SessionHead u) st1)"
    using first probe by (simp add: get_stream_url_True [OF assms(1)] seq_def)
  obtain r st2 where second: "get_stream_url E f video_id False (log (SessionHead u) st1) = (r, st2)"
    by (cases "get_stream_url E f video_id False (log (SessionHead u) st1)")
  from attempt_frame [OF assms(2)] attempt_frame [OF second]
  have "signature_timestamp st2 = signature_timestamp st
    \<and> filter is_refresh (events st2) = filter is_refresh (events st)"
    by (simp add: log_def event_kinds)
  moreover have "fst (get_stream_url E f video_id True st) = Inr (Some u)"
    if "js st1 \<noteq> [] \<or> isl (Cipher E [])"
  proof -
    from that build_url_leaves_script [OF first] have "js st1 \<noteq> []" by blast
    from retry_run [OF assms(1) first this probe] show ?thesis by auto
  qed
  ultimately show ?thesis using run second by simp
qed

theorem probe_not_forbidden_frame_witness:
  "signature_timestamp (snd (get_stream_url (demo_env 200) (demo_ciphered 1) ''abc123'' True demo_state)) = 1
   \<and> fst (get_stream_url (demo_env 200) (demo_ciphered 1) ''abc123'' True demo_state) =
       Inr (Some ''https://y/base&sig=ZYX'')"
proof -
  have js: "js demo_state = []" by (simp add: demo_state_def)
  have b: "signatureCipher (demo_ciphered 1) = Some ''s=XYZ&url=https://y/base''"
    by (simp add: demo_ciphered_def)
  have h1: "url (demo_ciphered 1) = None \<or> url (demo_ciphered 1) = Some []"
    by (simp add: demo_ciphered_def)
  have h2: "get_stream_url (demo_env 200) (demo_ciphered 1) ''abc123'' False demo_state =
      (Inr (Some ''https://y/base&sig=ZYX''),
       demo_state\<lparr>js := ''GET https://y/player.js'', cipher := Some (),
         events := events demo_state @ [SessionGet ''https://www.youtube.com/embed/abc123'',
           SessionGet ''https://y/player.js'', CipherInit ''GET https://y/player.js'',
           CipherGetSignature ''XYZ'']\<rparr>)"
    using build_url_attempt [OF h1 demo_build_url [OF js b, of 200]]
    by (simp add: demo_parse_s demo_parse_url)
  have h3: "session_head (demo_env 200)
      (events (demo_state\<lparr>js := ''GET https://y/player.js'', cipher := Some (),
         events := events demo_state @ [SessionGet ''https://www.youtube.com/embed/abc123'',
           SessionGet ''https://y/player.js'', CipherInit ''GET https://y/player.js'',
           CipherGetSignature ''XYZ'']\<rparr>)) ''https://y/base&sig=ZYX'' = Inr 200"
    by (simp add: demo_env_def)
  have h4: "(200::int) \<noteq> 403" by simp
  have h5: "js (demo_state\<lparr>js := ''GET https://y/player.js'', cipher := Some (),
         events := events demo_state @ [SessionGet ''https://www.youtube.com/embed/abc123'',
           SessionGet ''https://y/player.js'', CipherInit ''GET https://y/player.js'',
           CipherGetSignature ''XYZ'']\<rparr>) \<noteq> []"
    by simp
  note t = probe_not_forbidden_frame [OF h1 h2 h3 h4]
  from t have "signature_timestamp (snd (get_stream_url (demo_env 200) (demo_ciphered 1)
      ''abc123'' True demo_state)) = signature_timestamp demo_state"
    by (rule conjunct1)
  moreover have "signature_timestamp demo_state = 1" by (simp add: demo_state_def)
  moreover from t h5 have "fst (get_stream_url (demo_env 200) (demo_ciphered 1) ''abc123'' True
      demo_state) = Inr (Some ''https://y/base&sig=ZYX'')"
    by blast
  ultimately show ?thesis by simp
qed

text \<open>
  C8. A call of \<^verbatim>\<open>_get_stream_url\<close> decodes a signature at most twice, probes at most once
  and requests a timestamp at most once, whatever the outside answers: there are at most
  two attempts, and the function is total (its recursion was shown to terminate where it
  is defined). When the probe after the first attempt answers 403, the result is the
  result of the second attempt on the state with the new timestamp, exactly one probe
  has been made, and the URL of the second attempt is returned (under the proviso on
  the cached script of C10).
\<close>

theorem at_most_two_attempts:
  "length (filter is_decode (events (snd (get_stream_url E f video_id retry st))))
      \<le> length (filter is_decode (events st)) + 2
   \<and> length (filter is_probe (events (snd (get_stream_url E f video_id retry st))))
      \<le> length (filter is_probe (events st)) + 1
   \<and> length (filter is_refresh (events (snd (get_stream_url E f video_id retry st))))
      \<le> length (filter is_refresh (events st)) + 1
   \<and> ((url f = None \<or> url f = Some [])
        \<and> get_stream_url E f video_id False st = (Inr (Some u), st1)
        \<and> session_head E (events st1) u = Inr 403
        \<and> get_signatureTimestamp E (events st1 @ [SessionHead u]) = Inr ts
      \<longrightarrow> get_stream_url E f video_id True st =
            get_stream_url E f video_id False
              ((log ApiGetSignatureTimestamp (log (SessionHead u) st1))\<lparr>signature_timestamp := ts\<rparr>)
          \<and> filter is_probe (events (snd (get_stream_url E f video_id True st))) =
              filter is_probe (events st) @ [SessionHead u]
          \<and> (js st1 \<noteq> [] \<or> isl (Cipher E []) \<longrightarrow>
               fst (get_stream_url E f video_id True st) = Inr (Some u)))"
proof -
  obtain r st' where run: "get_stream_url E f video_id retry st = (r, st')"
    by (cases "get_stream_url E f video_id retry st")
  from get_stream_url_frame [OF run] run
  have counts: "length (filter is_decode (events (snd (get_stream_url E f video_id retry st))))
      \<le> length (filter is_decode (events st)) + 2
   \<and> length (filter is_probe (events (snd (get_stream_url E f video_id retry st))))
      \<le> length (filter is_probe (events st)) + 1
   \<and> length (filter is_refresh (events (snd (get_stream_url E f video_id retry st))))
      \<le> length (filter is_refresh (events st)) + 1"
    by simp
  have forbidden: "get_stream_url E f video_id True st =
            get_stream_url E f video_id False
              ((log ApiGetSignatureTimestamp (log (SessionHead u) st1))\<lparr>signature_timestamp := ts\<rparr>)
          \<and> filter is_probe (events (snd (get_stream_url E f video_id True st))) =
              filter is_probe (events st) @ [SessionHead u]
          \<and> (js st1 \<noteq> [] \<or> isl (Cipher E []) \<longrightarrow>
               fst (get_stream_url E f video_id True st) = Inr (Some u))"
    if path: "url f = None \<or> url f = Some []"
      and attempt: "get_stream_url E f video_id False st = (Inr (Some u), st1)"
      and head: "session_head E (events st1) u = Inr 403"
      and fresh: "get_signatureTimestamp E (events st1 @ [SessionHead u]) = Inr ts"
  proof -
    let ?st2 = "(log ApiGetSignatureTimestamp (log (SessionHead u) st1))\<lparr>signature_timestamp := ts\<rparr>"
    note first = attempt_build_url [OF path attempt]
    note probe = probe_forbidden [OF head fresh]
    have same: "get_stream_url E f video_id True st = get_stream_url E f video_id False ?st2"
      using first probe by (simp add: get_stream_url_True [OF path] seq_def)
    obtain r2 st3 where second: "get_stream_url E f video_id False ?st2 = (r2, st3)"
      by (cases "get_stream_url E f video_id False ?st2")
    from attempt_frame [OF attempt] attempt_frame [OF second]
    have "filter is_probe (events st3) = filter is_probe (events st) @ [SessionHead u]"
      by (simp add: log_def event_kinds)
    moreover have "fst (get_stream_url E f video_id True st) = Inr (Some u)"
      if "js st1 \<noteq> [] \<or> isl (Cipher E [])"
    proof -
      from that build_url_leaves_script [OF first] have "js st1 \<noteq> []" by blast
      from retry_run [OF path first this probe] show ?thesis by auto
    qed
    ultimately show ?thesis using same second by simp
  qed
  from counts forbidden show ?thesis by blast
qed

theorem at_most_two_attempts_witness:
  "get_stream_url (demo_env 403) (demo_ciphered 1) ''abc123'' True demo_state =
     get_stream_url (demo_env 403) (demo_ciphered 1) ''abc123'' False
       (demo_state\<lparr>js := ''GET https://y/player.js'', cipher := Some (), signature_timestamp := 2,
          events := [ApiGetSignatureTimestamp, SessionGet ''https://www.youtube.com/embed/abc123'',
           SessionGet ''https://y/player.js'', CipherInit ''GET https://y/player.js'',
           CipherGetSignature ''XYZ'', SessionHead ''https://y/base&sig=ZYX'',
           ApiGetSignatureTimestamp]\<rparr>)
   \<and> filter is_probe (events (snd (get_stream_url (demo_env 403) (demo_ciphered 1) ''abc123'' True
         demo_state))) = [SessionHead ''https://y/base&sig=ZYX'']
   \<and> fst (get_stream_url (demo_env 403) (demo_ciphered 1) ''abc123'' True demo_state) =
       Inr (Some ''https://y/base&sig=ZYX'')"
proof -
  let ?st1 = "demo_state\<lparr>js := ''GET https://y/player.js'', cipher := Some (),
         events := events demo_state @ [SessionGet ''https://www.youtube.com/embed/abc123'',
           SessionGet ''https://y/player.js'', CipherInit ''GET https://y/player.js'',
           CipherGetSignature ''XYZ'']\<rparr>"
  have js: "js demo_state = []" by (simp add: demo_state_def)
  have b: "signatureCipher (demo_ciphered 1) = Some ''s=XYZ&url=https://y/base''"
    by (simp add: demo_ciphered_def)
  have h1: "url (demo_ciphered 1) = None \<or> url (demo_ciphered 1) = Some []"
    by (simp add: demo_ciphered_def)
  have h2: "get_stream_url (demo_env 403) (demo_ciphered 1) ''abc123'' False demo_state =
      (Inr (Some ''https://y/base&sig=ZYX''), ?st1)"
    using build_url_attempt [OF h1 demo_build_url [OF js b, of 403]]
    by (simp add: demo_parse_s demo_parse_url)
  have h3: "session_head (demo_env 403) (events ?st1) ''https://y/base&sig=ZYX'' = Inr 403"
    by (simp add: demo_env_def)
  have h4: "get_signatureTimestamp (demo_env 403)
      (events ?st1 @ [SessionHead ''https://y/base&sig=ZYX'']) = Inr 2"
    by (simp add: demo_env_def demo_state_def event_kinds)
  have h5: "js ?st1 \<noteq> []" by simp
  let ?st2 = "(log ApiGetSignatureTimestamp (log (SessionHead ''https://y/base&sig=ZYX'') ?st1))
      \<lparr>signature_timestamp := 2\<rparr>"
  from at_most_two_attempts [of "demo_env 403" "demo_ciphered 1" "''abc123''" True demo_state
      "''https://y/base&sig=ZYX''" ?st1 2] h1 h2 h3 h4 h5
  have t: "get_stream_url (demo_env 403) (demo_ciphered 1) ''abc123'' True demo_state =
      get_stream_url (demo_env 403) (demo_ciphered 1) ''abc123'' False ?st2
    \<and> filter is_probe (events (snd (get_stream_url (demo_env 403) (demo_ciphered 1) ''abc123''
          True demo_state))) =
        filter is_probe (events demo_state) @ [SessionHead ''https://y/base&sig=ZYX'']
    \<and> fst (get_stream_url (demo_env 403) (demo_ciphered 1) ''abc123'' True demo_state) =
        Inr (Some ''https://y/base&sig=ZYX'')"
    by blast
  have st2: "?st2 = demo_state\<lparr>js := ''GET https://y/player.js'', cipher := Some (),
          signature_timestamp := 2,
          events := [ApiGetSignatureTimestamp, SessionGet ''https://www.youtube.com/embed/abc123'',
           SessionGet ''https://y/player.js'', CipherInit ''GET https://y/player.js'',
           CipherGetSignature ''XYZ'', SessionHead ''https://y/base&sig=ZYX'',
           ApiGetSignatureTimestamp]\<rparr>"
    by (simp add: log_def demo_state_def)
  have ev: "filter is_probe (events demo_state) = []"
    by (simp add: demo_state_def event_kinds)
  from t [unfolded st2 ev append_Nil] show ?thesis .
qed

lemma demo_stream_url:
  assumes "CACHE st = []" and "js st = []"
    and "signatureCipher (demo_ciphered (signature_timestamp st)) = Some b"
  shows "fst (stream_url (demo_env status_code) ''abc123'' 250 st) =
      Inr (UrlV (Some (parse_signatureCipher (\<lambda>s. s) b ''url'' @ ''&sig=''
           @ rev (parse_signatureCipher (\<lambda>s. s) b ''s''))))
    \<and> events (snd (stream_url (demo_env status_code) ''abc123'' 250 st)) =
        events st @ [ApiGetSong ''abc123'' (signature_timestamp st),
           SessionGet ''https://www.youtube.com/embed/abc123'',
           SessionGet ''https://y/player.js'', CipherInit ''GET https://y/player.js'',
           CipherGetSignature (parse_signatureCipher (\<lambda>s. s) b ''s''),
           SessionHead (parse_signatureCipher (\<lambda>s. s) b ''url'' @ ''&sig=''
             @ rev (parse_signatureCipher (\<lambda>s. s) b ''s''))]
           @ (if status_code = 403 then [ApiGetSignatureTimestamp] else [])
           @ [CipherGetSignature (parse_signatureCipher (\<lambda>s. s) b ''s'')]
    \<and> signature_timestamp (snd (stream_url (demo_env status_code) ''abc123'' 250 st)) =
        (if status_code = 403 then 1 + int (length (filter is_refresh (events st)))
         else signature_timestamp st)"
proof -
  let ?E = "demo_env status_code"
  let ?si = "\<lparr>streamingData = \<lparr>adaptiveFormats = demo_formats (signature_timestamp st)\<rparr>\<rparr>"
  let ?S1 = "st\<lparr>CACHE := [([Str ''song_info'', Self, Str ''abc123''], SongInfoV ?si,
        1000 * (1 + int (length (events st))))],
      events := events st @ [ApiGetSong ''abc123'' (signature_timestamp st)]\<rparr>"
  have st: "st\<lparr>CACHE := []\<rparr> = st" using assms(1) by (cases st) simp
  have s: "song_info ?E ''abc123'' st = (Inr (SongInfoV ?si), ?S1)"
    by (simp add: song_info_def song_info_wrapped_def cache_defs action_defs demo_env_def
        assms(1) st)
  have f: "find (\<lambda>f. itag f = 250) (adaptiveFormats (streamingData ?si)) =
      Some (demo_ciphered (signature_timestamp st))"
    by (simp add: demo_formats_def demo_plain_def demo_ciphered_def)
  have js: "js ?S1 = []" using assms(2) by simp
  have u: "url (demo_ciphered (signature_timestamp st)) = None"
    by (simp add: demo_ciphered_def)
  note g = demo_get_stream_url [OF js u assms(3), of status_code]
  have w: "stream_url_wrapped ?E ''abc123'' 250 st =
      (Inr (UrlV (Some (parse_signatureCipher (\<lambda>s. s) b ''url'' @ ''&sig=''
           @ rev (parse_signatureCipher (\<lambda>s. s) b ''s'')))),
       snd (get_stream_url ?E (demo_ciphered (signature_timestamp st)) ''abc123'' True ?S1))"
    using s f g by (simp add: stream_url_wrapped_def seq_def ok_def)
  have m: "cache_get CACHE_ttl (timer ?E (events st))
      (hashkey [Str ''stream_url'', Self, Str ''abc123'', Num 250]) (CACHE st) = (None, [])"
    by (simp add: cache_get_def assms(1))
  from w st have w': "stream_url_wrapped ?E ''abc123'' 250 (st\<lparr>CACHE := []\<rparr>) =
      (Inr (UrlV (Some (parse_signatureCipher (\<lambda>s. s) b ''url'' @ ''&sig=''
           @ rev (parse_signatureCipher (\<lambda>s. s) b ''s'')))),
       snd (get_stream_url ?E (demo_ciphered (signature_timestamp st)) ''abc123'' True ?S1))"
    by simp
  let ?S2 = "snd (get_stream_url ?E (demo_ciphered (signature_timestamp st)) ''abc123'' True ?S1)"
  let ?v = "UrlV (Some (parse_signatureCipher (\<lambda>s. s) b ''url'' @ ''&sig=''
           @ rev (parse_signatureCipher (\<lambda>s. s) b ''s'')))"
  have "stream_url ?E ''abc123'' 250 st = (Inr ?v,
      ?S2\<lparr>CACHE := cache_set CACHE_maxsize CACHE_ttl (timer ?E (events ?S2))
        (hashkey [Str ''stream_url'', Self, Str ''abc123'', Num 250]) ?v (CACHE ?S2)\<rparr>)"
    unfolding stream_url_def
    by (rule cached_computed [where func = "stream_url_wrapped ?E ''abc123'' 250", OF m w'])
  then have "fst (stream_url ?E ''abc123'' 250 st) = Inr ?v
    \<and> events (snd (stream_url ?E ''abc123'' 250 st)) = events ?S2
    \<and> signature_timestamp (snd (stream_url ?E ''abc123'' 250 st)) = signature_timestamp ?S2"
    by simp
  with g show ?thesis by (simp add: event_kinds)
qed

text \<open>
  C1. The claim is that after a 403 probe the resolution is retried from its first step
  with the new timestamp, the metadata being fetched again. \<^verbatim>\<open>_get_stream_url\<close> requests
  the new timestamp once and then calls itself on the format descriptor it was given.
  In the run below the metadata is fetched once, with the old timestamp 1 and before the
  probe; after the timestamp has become 2 the signature of the old descriptor is decoded
  again and the same URL is returned, although the metadata under timestamp 2 carries
  another blob (last line: a resolution that starts with timestamp 2 gives another URL).
\<close>

theorem forbidden_probe_reuses_stale_metadata:
  "fst (stream_url (demo_env 403) ''abc123'' 250 demo_state) =
      Inr (UrlV (Some ''https://y/base&sig=ZYX''))
   \<and> events (snd (stream_url (demo_env 403) ''abc123'' 250 demo_state)) =
       [ApiGetSignatureTimestamp, ApiGetSong ''abc123'' 1,
        SessionGet ''https://www.youtube.com/embed/abc123'', SessionGet ''https://y/player.js'',
        CipherInit ''GET https://y/player.js'', CipherGetSignature ''XYZ'',
        SessionHead ''https://y/base&sig=ZYX'', ApiGetSignatureTimestamp,
        CipherGetSignature ''XYZ'']
   \<and> signature_timestamp (snd (stream_url (demo_env 403) ''abc123'' 250 demo_state)) = 2
   \<and> fst (stream_url (demo_env 403) ''abc123'' 250 (demo_state\<lparr>signature_timestamp := 2\<rparr>)) =
       Inr (UrlV (Some ''https://y/base&sig=WEN''))"
proof -
  have c: "CACHE demo_state = []" and j: "js demo_state = []"
    and t: "signature_timestamp demo_state = 1"
    and e: "events demo_state = [ApiGetSignatureTimestamp]"
    by (simp_all add: demo_state_def)
  have b1: "signatureCipher (demo_ciphered (signature_timestamp demo_state)) =
      Some ''s=XYZ&url=https://y/base''"
    by (simp add: demo_ciphered_def t)
  have c2: "CACHE (demo_state\<lparr>signature_timestamp := 2\<rparr>) = []"
    and j2: "js (demo_state\<lparr>signature_timestamp := 2\<rparr>) = []"
    by (simp_all add: demo_state_def)
  have b2: "signatureCipher (demo_ciphered (signature_timestamp (demo_state\<lparr>signature_timestamp := 2\<rparr>))) =
      Some ''s=NEW&url=https://y/base''"
    by (simp add: demo_ciphered_def)
  have p: "parse_signatureCipher (\<lambda>s. s) ''s=NEW&url=https://y/base'' ''s'' = ''NEW''"
    "parse_signatureCipher (\<lambda>s. s) ''s=NEW&url=https://y/base'' ''url'' = ''https://y/base''"
    by (simp_all add: parse_defs)
  from demo_stream_url [OF c j b1, of 403] demo_stream_url [OF c2 j2 b2, of 403]
  show ?thesis
    by (simp add: demo_parse_s demo_parse_url p t e event_kinds)
qed

text \<open>
  C2. The claim is that a blob \<^verbatim>\<open>s=X&url=Y\<close> resolves to
  \<^verbatim>\<open>unquote(Y) + "&sig=" + decode(unquote(X))\<close>. The loop tests
  \<^verbatim>\<open>sig.find(key + "=") >= 0\<close>, which holds wherever the key occurs in the field, and then
  cuts the field after \<^verbatim>\<open>len(key + "=")\<close> characters as if the key were at its start. In
  the blob below, the field \<^verbatim>\<open>url=https://y/base?ids=7\<close> contains \<^verbatim>\<open>s=\<close>, so \<^verbatim>\<open>res['s']\<close>
  becomes that field without its first two characters and the signature \<^verbatim>\<open>XYZ\<close> is lost.
\<close>

theorem substring_match_corrupts_signature:
  "parse_signatureCipher (unquote (demo_env 200)) ''s=XYZ&url=https://y/base?ids=7'' ''s'' =
      ''l=https://y/base?ids=7''
   \<and> fst (get_stream_url (demo_env 200) demo_query ''abc123'' True demo_state) =
       Inr (Some ''https://y/base?ids=7&sig=7=sdi?esab/y//:sptth=l'')
   \<and> get_signature (demo_env 200) () (unquote (demo_env 200) ''XYZ'') = Inr ''ZYX''
   \<and> fst (get_stream_url (demo_env 200) demo_query ''abc123'' True demo_state) \<noteq>
       Inr (Some (unquote (demo_env 200) ''https://y/base?ids=7'' @ ''&sig='' @ ''ZYX''))"
proof -
  have j: "js demo_state = []" by (simp add: demo_state_def)
  have u: "url demo_query = None"
    and b: "signatureCipher demo_query = Some ''s=XYZ&url=https://y/base?ids=7''"
    by (simp_all add: demo_query_def)
  have q: "unquote (demo_env 200) = (\<lambda>s. s)"
    and g: "get_signature (demo_env 200) = (\<lambda>c s. Inr (rev s))"
    by (simp_all add: demo_env_def)
  from demo_get_stream_url [OF j u b, of 200]
  show ?thesis
    by (simp add: q g demo_query_parse_s demo_query_parse_url)
qed

section \<open>Memoization\<close>

lemma cached_after_store:
  assumes "CACHE st3 = cache_set CACHE_maxsize CACHE_ttl t k v c0"
  shows "cached E2 k func2 st3 =
    (if timer E2 (events st3) - t < CACHE_ttl then (Inr v, st3)
     else (case func2 (st3\<lparr>CACHE := butlast (CACHE st3)\<rparr>) of
             (Inl e, s) \<Rightarrow> (Inl e, s)
           | (Inr v2, s) \<Rightarrow>
               (Inr v2, s\<lparr>CACHE :=
                  cache_set CACHE_maxsize CACHE_ttl (timer E2 (events s)) k v2 (CACHE s)\<rparr>)))"
proof -
  from cache_set_entries [of CACHE_maxsize CACHE_ttl t k v c0] obtain c3 where
    c3: "cache_set CACHE_maxsize CACHE_ttl t k v c0 = c3 @ [(k, v, t)]" and k: "k \<notin> fst ` set c3"
    by blast
  from assms c3 have c: "CACHE st3 = c3 @ [(k, v, t)]" by simp
  have keep: "st3\<lparr>CACHE := c3 @ [(k, v, t)]\<rparr> = st3" using c by (cases st3) simp
  show ?thesis
    by (simp add: cached_def c cache_get_stored [OF k] keep)
qed

text \<open>
  C5. Two calls of a decorated method with the same key. The first finds no live entry,
  invokes the function once and stores its value. A second call on the cache the first
  one left, made while less than the TTL has passed since the value was stored, returns
  the stored value and leaves the state as it is, whatever function it is given: the
  function is not invoked. Once the TTL has passed, the call is the invocation of the
  function again, on the cache without the expired entry, and the storing of its value.
\<close>

theorem cached_twice_within_ttl:
  assumes "cache_get CACHE_ttl (timer E (events st)) k (CACHE st) = (None, c)"
    and "func (st\<lparr>CACHE := c\<rparr>) = (Inr v, st1)"
    and "CACHE st3 = CACHE (snd (cached E k func st))"
  shows "fst (cached E k func st) = Inr v
    \<and> events (snd (cached E k func st)) = events st1
    \<and> (timer E (events st3) - timer E (events st1) < CACHE_ttl \<longrightarrow>
          cached E k func2 st3 = (Inr v, st3))
    \<and> (\<not> timer E (events st3) - timer E (events st1) < CACHE_ttl \<longrightarrow>
          cached E k func2 st3 =
            (case func2 (st3\<lparr>CACHE := butlast (CACHE st3)\<rparr>) of
               (Inl e, s) \<Rightarrow> (Inl e, s)
             | (Inr v2, s) \<Rightarrow>
                 (Inr v2, s\<lparr>CACHE :=
                    cache_set CACHE_maxsize CACHE_ttl (timer E (events s)) k v2 (CACHE s)\<rparr>)))"
proof -
  from assms(1,2) have first: "cached E k func st =
      (Inr v, st1\<lparr>CACHE := cache_set CACHE_maxsize CACHE_ttl (timer E (events st1)) k v (CACHE st1)\<rparr>)"
    by (simp add: cached_def)
  with assms(3) have "CACHE st3 = cache_set CACHE_maxsize CACHE_ttl (timer E (events st1)) k v (CACHE st1)"
    by simp
  from cached_after_store [OF this, of E func2] first show ?thesis by simp
qed

text \<open>
  C9. \<^verbatim>\<open>stream_url\<close> is itself decorated, on the same \<^verbatim>\<open>CACHE\<close>, with the key
  \<^verbatim>\<open>('stream_url', self, video_id, format_code)\<close>. After a call that computed the result
  \<open>r\<close> (a URL or \<^verbatim>\<open>None\<close>), a call with the same arguments on the cache that call left,
  within the TTL, returns \<open>r\<close> and changes nothing: no format is selected, no signature
  decoded, no probe made, whatever the outside (\<open>E2\<close>) would answer now.
\<close>

theorem stream_url_memoized:
  assumes "cache_get CACHE_ttl (timer E (events st))
      (hashkey [Str ''stream_url'', Self, Str video_id, Num format_code]) (CACHE st) = (None, c)"
    and "stream_url_wrapped E video_id format_code (st\<lparr>CACHE := c\<rparr>) = (Inr r, st1)"
    and "CACHE st3 = CACHE (snd (stream_url E video_id format_code st))"
    and "timer E2 (events st3) - timer E (events st1) < CACHE_ttl"
  shows "fst (stream_url E video_id format_code st) = Inr r
    \<and> stream_url E2 video_id format_code st3 = (Inr r, st3)"
proof -
  from assms(1,2) have first: "stream_url E video_id format_code st =
      (Inr r, st1\<lparr>CACHE := cache_set CACHE_maxsize CACHE_ttl (timer E (events st1))
        (hashkey [Str ''stream_url'', Self, Str video_id, Num format_code]) r (CACHE st1)\<rparr>)"
    by (simp add: stream_url_def cached_def)
  with assms(3) have "CACHE st3 = cache_set CACHE_maxsize CACHE_ttl (timer E (events st1))
        (hashkey [Str ''stream_url'', Self, Str video_id, Num format_code]) r (CACHE st1)"
    by simp
  from cached_after_store [OF this, of E2 "stream_url_wrapped E2 video_id format_code"] assms(4) first
  show ?thesis by (simp add: stream_url_def)
qed


theorem cached_twice_within_ttl_witness:
  "song_info (demo_env 200) ''abc123'' (snd (song_info (demo_env 200) ''abc123'' demo_state)) =
     (fst (song_info (demo_env 200) ''abc123'' demo_state),
      snd (song_info (demo_env 200) ''abc123'' demo_state))
   \<and> events (snd (song_info (demo_env 200) ''abc123'' demo_state)) =
       [ApiGetSignatureTimestamp, ApiGetSong ''abc123'' 1]
   \<and> events (snd (song_info (demo_env 200) ''abc123''
         (log (SessionHead ''later'') (snd (song_info (demo_env 200) ''abc123'' demo_state))))) =
       [ApiGetSignatureTimestamp, ApiGetSong ''abc123'' 1, SessionHead ''later'',
        ApiGetSong ''abc123'' 1]"
proof -
  let ?E = "demo_env 200"
  let ?k = "hashkey [Str ''song_info'', Self, Str ''abc123'']"
  let ?v = "SongInfoV \<lparr>streamingData = \<lparr>adaptiveFormats = demo_formats 1\<rparr>\<rparr>"
  let ?st1 = "demo_state\<lparr>events := [ApiGetSignatureTimestamp, ApiGetSong ''abc123'' 1]\<rparr>"
  let ?S = "demo_state\<lparr>CACHE := [([Str ''song_info'', Self, Str ''abc123''], ?v, 2000)],
        events := [ApiGetSignatureTimestamp, ApiGetSong ''abc123'' 1]\<rparr>"
  have S: "song_info ?E ''abc123'' demo_state = (Inr ?v, ?S)"
    by (rule demo_song_info)
  have h1: "cache_get CACHE_ttl (timer ?E (events demo_state)) ?k (CACHE demo_state) = (None, [])"
    by (simp add: cache_get_def demo_state_def)
  have h2: "song_info_wrapped ?E ''abc123'' (demo_state\<lparr>CACHE := []\<rparr>) = (Inr ?v, ?st1)"
    by (simp add: song_info_wrapped_def action_defs demo_env_def demo_state_def)
  have h3: "CACHE ?S = CACHE (snd (cached ?E ?k (song_info_wrapped ?E ''abc123'') demo_state))"
    using S by (simp add: song_info_def)
  have h3': "CACHE (log (SessionHead ''later'') ?S) =
      CACHE (snd (cached ?E ?k (song_info_wrapped ?E ''abc123'') demo_state))"
    using S by (simp add: song_info_def log_def)
  have tm: "timer ?E = (\<lambda>h. 1000 * int (length h))" by (simp add: demo_env_def)
  have ev: "events ?S = [ApiGetSignatureTimestamp, ApiGetSong ''abc123'' 1]"
    by simp
  have within: "timer ?E (events ?S) - timer ?E (events ?st1) < CACHE_ttl"
    by (simp add: tm ev CACHE_ttl_def timedelta_minutes_seconds_def)
  have after: "\<not> timer ?E (events (log (SessionHead ''later'') ?S)) - timer ?E (events ?st1)
      < CACHE_ttl"
    by (simp add: tm ev log_def CACHE_ttl_def timedelta_minutes_seconds_def)
  from cached_twice_within_ttl [OF h1 h2 h3, of "song_info_wrapped ?E ''abc123''"] within
  have second: "song_info ?E ''abc123'' ?S = (Inr ?v, ?S)"
    by (simp add: song_info_def)
  from cached_twice_within_ttl [OF h1 h2 h3', of "song_info_wrapped ?E ''abc123''"] after
  have "song_info ?E ''abc123'' (log (SessionHead ''later'') ?S) =
      (case song_info_wrapped ?E ''abc123''
          ((log (SessionHead ''later'') ?S)\<lparr>CACHE := butlast (CACHE (log (SessionHead ''later'') ?S))\<rparr>) of
         (Inl e, s) \<Rightarrow> (Inl e, s)
       | (Inr v2, s) \<Rightarrow>
           (Inr v2, s\<lparr>CACHE := cache_set CACHE_maxsize CACHE_ttl (timer ?E (events s)) ?k v2 (CACHE s)\<rparr>))"
    by (simp add: song_info_def)
  then have third: "events (snd (song_info ?E ''abc123'' (log (SessionHead ''later'') ?S))) =
      [ApiGetSignatureTimestamp, ApiGetSong ''abc123'' 1, SessionHead ''later'',
        ApiGetSong ''abc123'' 1]"
    by (simp add: song_info_wrapped_def action_defs demo_env_def demo_state_def)
  from second third S show ?thesis by simp
qed

theorem stream_url_memoized_witness:
  "fst (stream_url (demo_env 200) ''abc123'' 7 demo_state) = Inr (UrlV None)
   \<and> stream_url (demo_env 403) ''abc123'' 7 (snd (stream_url (demo_env 200) ''abc123'' 7 demo_state)) =
       (Inr (UrlV None), snd (stream_url (demo_env 200) ''abc123'' 7 demo_state))"
proof -
  let ?E = "demo_env 200"
  let ?si = "\<lparr>streamingData = \<lparr>adaptiveFormats = demo_formats 1\<rparr>\<rparr>"
  let ?st1 = "demo_state\<lparr>CACHE := [([Str ''song_info'', Self, Str ''abc123''], SongInfoV ?si, 2000)],
        events := [ApiGetSignatureTimestamp, ApiGetSong ''abc123'' 1]\<rparr>"
  let ?S = "snd (stream_url ?E ''abc123'' 7 demo_state)"
  have h1: "cache_get CACHE_ttl (timer ?E (events demo_state))
      (hashkey [Str ''stream_url'', Self, Str ''abc123'', Num 7]) (CACHE demo_state) = (None, [])"
    by (simp add: cache_get_def demo_state_def)
  have s: "song_info ?E ''abc123'' (demo_state\<lparr>CACHE := []\<rparr>) = (Inr (SongInfoV ?si), ?st1)"
    using demo_song_info [of 200] by (simp add: demo_state_def)
  have a: "7 \<notin> set (map itag (adaptiveFormats (streamingData ?si)))"
    by (simp add: demo_formats_def demo_plain_def demo_ciphered_def)
  note h2 = stream_url_wrapped_absent [OF s a]
  have h3: "CACHE ?S = CACHE (snd (stream_url ?E ''abc123'' 7 demo_state))" by simp
  from h1 h2 have "events ?S = events ?st1"
    by (simp add: stream_url_def cached_def)
  moreover have "timer (demo_env 403) = (\<lambda>h. 1000 * int (length h))"
    and "timer ?E = (\<lambda>h. 1000 * int (length h))"
    by (simp_all add: demo_env_def)
  ultimately have h4: "timer (demo_env 403) (events ?S) - timer ?E (events ?st1) < CACHE_ttl"
    by (simp add: CACHE_ttl_def timedelta_minutes_seconds_def)
  from stream_url_memoized [OF h1 h2 h3 h4] show ?thesis .
qed

section \<open>The size of the cache\<close>

lemma stream_url_wrapped_bounded:
  assumes "stream_url_wrapped E video_id format_code st = (r, st')"
    and "length (CACHE st) \<le> CACHE_maxsize"
  shows "length (CACHE st') \<le> CACHE_maxsize"
proof -
  from assms(1) have run: "seq (song_info E video_id) (\<lambda>v.
       case v of
         SongInfoV si \<Rightarrow>
           (let formats = adaptiveFormats (streamingData si) in
            case find (\<lambda>f. itag f = format_code) formats of
              Some f \<Rightarrow> seq (get_stream_url E f video_id True) (\<lambda>r. ok (UrlV r))
            | None \<Rightarrow> ok (UrlV None))
       | UrlV _ \<Rightarrow> raise AttributeError) st = (r, st')"
    by (simp add: stream_url_wrapped_def)
  from run show ?thesis
  proof (cases rule: seq_cases)
    case (failed e)
    from song_info_frame [OF failed(1)] assms(2) show ?thesis by simp
  next
    case (passed v st1)
    from song_info_frame [OF passed(1)] assms(2)
    have b: "length (CACHE st1) \<le> CACHE_maxsize" by simp
    show ?thesis
    proof (cases v)
      case (UrlV x)
      with passed(2) b show ?thesis by (simp add: raise_def)
    next
      case (SongInfoV si)
      show ?thesis
      proof (cases "find (\<lambda>f. itag f = format_code) (adaptiveFormats (streamingData si))")
        case None
        with passed(2) SongInfoV b show ?thesis by (simp add: ok_def)
      next
        case (Some f)
        with passed(2) SongInfoV
        have "seq (get_stream_url E f video_id True) (\<lambda>r. ok (UrlV r)) st1 = (r, st')"
          by simp
        then show ?thesis
        proof (cases rule: seq_cases)
          case (failed e)
          from get_stream_url_frame [OF failed(1)] b show ?thesis by simp
        next
          case (passed x st2)
          then have "st2 = st'" by (simp add: ok_def)
          with get_stream_url_frame [OF passed(1)] b show ?thesis by simp
        qed
      qed
    qed
  qed
qed

lemma stream_url_bounded:
  assumes "length (CACHE st) \<le> CACHE_maxsize"
  shows "length (CACHE (snd (stream_url E video_id format_code st))) \<le> CACHE_maxsize"
proof -
  obtain r st' where run: "stream_url E video_id format_code st = (r, st')"
    by (cases "stream_url E video_id format_code st")
  from cached_bounded [OF run [unfolded stream_url_def] assms stream_url_wrapped_bounded] run
  show ?thesis by simp
qed

lemma cache_set_evicts_lru:
  assumes "length c = maxsize" and "0 < maxsize" and "k \<notin> fst ` set c"
    and "list_all (live ttl now) c"
  shows "cache_set maxsize ttl now k v c = tl c @ [(k, v, now)]"
proof -
  have "filter (live ttl now) c = c"
    using assms(4) by (simp add: list_all_iff)
  moreover have "drop (Suc 0) c = tl c" by (simp add: drop_Suc)
  ultimately show ?thesis
    using assms(1,2) remove_key_id [OF assms(3)]
    by (simp add: cache_set_def Let_def)
qed


text \<open>
  C6. \<^verbatim>\<open>CACHE\<close> holds at most 100 entries and its TTL is 600 seconds, the same for every
  key. The bound holds at the start and is preserved by every store, by \<^verbatim>\<open>song_info\<close> and
  \<^verbatim>\<open>stream_url\<close>, and by any decorated function whose body preserves it. When the cache
  is full of live entries, the store of a new key evicts the least recently used entry
  (the first of the list) although it has not expired; a live hit makes its entry the
  most recently used.
\<close>

theorem cache_bounded_lru:
  "CACHE_maxsize = 100 \<and> CACHE_ttl = 600
   \<and> length (CACHE (init :: 'c state)) \<le> CACHE_maxsize
   \<and> length (cache_set CACHE_maxsize CACHE_ttl now k v c) \<le> CACHE_maxsize
   \<and> (length (CACHE st) \<le> CACHE_maxsize \<longrightarrow>
        length (CACHE (snd (stream_url E video_id format_code st))) \<le> CACHE_maxsize
        \<and> length (CACHE (snd (song_info E video_id st))) \<le> CACHE_maxsize)
   \<and> ((\<forall>s. length (CACHE s) \<le> CACHE_maxsize \<longrightarrow> length (CACHE (snd (func s))) \<le> CACHE_maxsize)
        \<and> length (CACHE st) \<le> CACHE_maxsize \<longrightarrow>
        length (CACHE (snd (cached E k func st))) \<le> CACHE_maxsize)
   \<and> (length c = CACHE_maxsize \<and> k \<notin> fst ` set c \<and> list_all (live CACHE_ttl now) c \<longrightarrow>
        cache_set CACHE_maxsize CACHE_ttl now k v c = tl c @ [(k, v, now)])
   \<and> (map_of c2 k = Some (v, t) \<longrightarrow>
        fst (cache_get CACHE_ttl now k c2) = (if now - t < 600 then Some v else None)
        \<and> (now - t < 600 \<longrightarrow> snd (cache_get CACHE_ttl now k c2) = remove_key k c2 @ [(k, v, t)]))"
proof -
  have sizes: "CACHE_maxsize = 100 \<and> CACHE_ttl = 600"
    by (simp add: CACHE_maxsize_def CACHE_ttl_def timedelta_minutes_seconds_def)
  have start: "length (CACHE (init :: 'c state)) \<le> CACHE_maxsize"
    by (simp add: init_def)
  have store: "length (cache_set CACHE_maxsize CACHE_ttl now k v c) \<le> CACHE_maxsize"
    by (rule cache_set_length [OF CACHE_maxsize_pos])
  have methods: "length (CACHE (snd (stream_url E video_id format_code st))) \<le> CACHE_maxsize
        \<and> length (CACHE (snd (song_info E video_id st))) \<le> CACHE_maxsize"
    if "length (CACHE st) \<le> CACHE_maxsize"
  proof -
    obtain r st' where run: "song_info E video_id st = (r, st')"
      by (cases "song_info E video_id st")
    from song_info_frame [OF run] that run
    have "length (CACHE (snd (song_info E video_id st))) \<le> CACHE_maxsize" by simp
    with stream_url_bounded [OF that] show ?thesis by simp
  qed
  have decorated: "length (CACHE (snd (cached E k func st))) \<le> CACHE_maxsize"
    if f: "\<forall>s. length (CACHE s) \<le> CACHE_maxsize \<longrightarrow> length (CACHE (snd (func s))) \<le> CACHE_maxsize"
      and b: "length (CACHE st) \<le> CACHE_maxsize"
  proof -
    obtain r st' where run: "cached E k func st = (r, st')"
      by (cases "cached E k func st")
    have "length (CACHE s1) \<le> CACHE_maxsize"
      if "func s = (r1, s1)" and "length (CACHE s) \<le> CACHE_maxsize" for s r1 s1
      using f that by (metis snd_conv)
    from cached_bounded [OF run b this] run show ?thesis by simp
  qed
  have lru: "cache_set CACHE_maxsize CACHE_ttl now k v c = tl c @ [(k, v, now)]"
    if "length c = CACHE_maxsize" and "k \<notin> fst ` set c" and "list_all (live CACHE_ttl now) c"
    using cache_set_evicts_lru [OF that(1) CACHE_maxsize_pos that(2,3)] .
  have visible: "fst (cache_get CACHE_ttl now k c2) = (if now - t < 600 then Some v else None)
      \<and> (now - t < 600 \<longrightarrow> snd (cache_get CACHE_ttl now k c2) = remove_key k c2 @ [(k, v, t)])"
    if "map_of c2 k = Some (v, t)"
    using that sizes by (simp add: cache_get_def live_def)
  from sizes start store methods decorated lru visible show ?thesis by blast
qed

theorem cache_bounded_lru_witness:
  "length (CACHE (snd (stream_url (demo_env 200) ''abc123'' 251 demo_state))) \<le> CACHE_maxsize
   \<and> length (CACHE (snd (cached (demo_env 200) [Str ''x'']
        (song_info_wrapped (demo_env 200) ''abc123'') demo_state))) \<le> CACHE_maxsize
   \<and> cache_set CACHE_maxsize CACHE_ttl 1 [Str ''new''] (UrlV None) demo_full_cache =
       tl demo_full_cache @ [([Str ''new''], UrlV None, 1)]
   \<and> fst (cache_get CACHE_ttl 599 [Num 0] [([Num 0], UrlV None, 0)]) = Some (UrlV None)
   \<and> snd (cache_get CACHE_ttl 599 [Num 0] [([Num 0], UrlV None, 0)]) =
       [([Num 0], UrlV None, 0)]"
proof -
  have b: "length (CACHE demo_state) \<le> CACHE_maxsize" by (simp add: demo_state_def)
  have f: "\<forall>s. length (CACHE s) \<le> CACHE_maxsize \<longrightarrow>
      length (CACHE (snd (song_info_wrapped (demo_env 200) ''abc123'' s))) \<le> CACHE_maxsize"
  proof (intro allI impI)
    fix s :: "unit state"
    assume "length (CACHE s) \<le> CACHE_maxsize"
    moreover obtain r s1 where run: "song_info_wrapped (demo_env 200) ''abc123'' s = (r, s1)"
      by (cases "song_info_wrapped (demo_env 200) ''abc123'' s")
    ultimately show "length (CACHE (snd (song_info_wrapped (demo_env 200) ''abc123'' s))) \<le> CACHE_maxsize"
      using song_info_wrapped_frame [OF run] by simp
  qed
  have l: "length demo_full_cache = CACHE_maxsize"
    by (simp add: demo_full_cache_def CACHE_maxsize_def)
  have n: "[Str ''new''] \<notin> fst ` set demo_full_cache"
    by (auto simp add: demo_full_cache_def)
  have a: "list_all (live CACHE_ttl 1) demo_full_cache"
    by (simp add: demo_full_cache_def list_all_iff live_def CACHE_ttl_def
        timedelta_minutes_seconds_def)
  have m: "map_of [([Num 0], UrlV None, 0)] [Num 0] = Some (UrlV None, 0)" by simp
  from cache_bounded_lru [of 1 "[Str ''new'']" "UrlV None" demo_full_cache demo_state "demo_env 200"
      "''abc123''" 251] b l n a
  have one: "length (CACHE (snd (stream_url (demo_env 200) ''abc123'' 251 demo_state))) \<le> CACHE_maxsize
    \<and> cache_set CACHE_maxsize CACHE_ttl 1 [Str ''new''] (UrlV None) demo_full_cache =
       tl demo_full_cache @ [([Str ''new''], UrlV None, 1)]"
    by blast
  from cache_bounded_lru [of 599 "[Str ''x'']" "UrlV None" "[]" demo_state "demo_env 200" "''abc123''" 251
      "song_info_wrapped (demo_env 200) ''abc123''"] b f
  have two: "length (CACHE (snd (cached (demo_env 200) [Str ''x'']
        (song_info_wrapped (demo_env 200) ''abc123'') demo_state))) \<le> CACHE_maxsize"
    by blast
  from cache_bounded_lru [of 599 "[Num 0]" "UrlV None" "[]" demo_state "demo_env 200" "''abc123''" 251
      "song_info_wrapped (demo_env 200) ''abc123''" "[([Num 0], UrlV None, 0)]" 0] m
  have "fst (cache_get CACHE_ttl 599 [Num 0] [([Num 0], UrlV None, 0)]) =
      (if (599::int) - 0 < 600 then Some (UrlV None) else None)
    \<and> ((599::int) - 0 < 600 \<longrightarrow> snd (cache_get CACHE_ttl 599 [Num 0] [([Num 0], UrlV None, 0)]) =
        remove_key [Num 0] [([Num 0], UrlV None, 0)] @ [([Num 0], UrlV None, 0)])"
    by blast
  then have three: "fst (cache_get CACHE_ttl 599 [Num 0] [([Num 0], UrlV None, 0)]) = Some (UrlV None)
    \<and> snd (cache_get CACHE_ttl 599 [Num 0] [([Num 0], UrlV None, 0)]) =
       [([Num 0], UrlV None, 0)]"
    by (simp add: remove_key_def)
  from one two three show ?thesis by simp
qed

section \<open>The player script\<close>

lemma get_cipher_script_events:
  assumes "get_cipher E video_id st = (r, st1)"
  shows "length (filter is_script_fetch (events st1)) \<le> length (filter is_script_fetch (events st)) + 3"
  using assms
  by (auto simp add: get_cipher_def action_defs event_kinds Let_def
      split: sum.splits prod.splits)

lemma build_url_script_events:
  assumes "build_url E f video_id st = (r, st1)"
  shows "length (filter is_script_fetch (events st1)) \<le> length (filter is_script_fetch (events st)) + 3"
proof (cases "js st = []")
  case True
  show ?thesis
    using assms True get_cipher_script_events [of E video_id st]
    by (auto simp add: build_url_def action_defs event_kinds Let_def
        split: sum.splits prod.splits option.splits)
next
  case False
  from build_url_cached_script [OF assms False] show ?thesis by simp
qed

lemma build_url_first_fetch:
  assumes "build_url E f video_id st = (r, st1)" and "js st = []" and "signatureCipher f = Some b"
  shows "prefix (events st @ [SessionGet (''https://www.youtube.com/embed/'' @ video_id)]) (events st1)"
  using assms get_cipher_first_event [of E video_id st]
  by (auto simp add: build_url_def action_defs Let_def prefix_def
      split: sum.splits prod.splits option.splits)

lemma get_stream_url_first_fetch:
  assumes "js st = []" and "url f = None \<or> url f = Some []" and "signatureCipher f = Some b"
  shows "prefix (events st @ [SessionGet (''https://www.youtube.com/embed/'' @ video_id)])
    (events (snd (get_stream_url E f video_id retry st)))"
proof -
  obtain r1 st1 where first: "build_url E f video_id st = (r1, st1)"
    by (cases "build_url E f video_id st")
  note p = build_url_first_fetch [OF first assms(1,3)]
  show ?thesis
  proof (cases r1)
    case (Inl e)
    with first have "get_stream_url E f video_id retry st = (Inl e, st1)"
      by (cases retry) (simp_all add: get_stream_url_True [OF assms(2)]
          get_stream_url_False [OF assms(2)] seq_def)
    with p show ?thesis by simp
  next
    case (Inr u)
    show ?thesis
    proof (cases retry)
      case False
      with first Inr have "get_stream_url E f video_id retry st = (Inr (Some u), st1)"
        by (simp add: get_stream_url_False [OF assms(2)] seq_def ok_def)
      with p show ?thesis by simp
    next
      case True
      obtain r2 st2 where probe: "probe_and_refresh E u st1 = (r2, st2)"
        by (cases "probe_and_refresh E u st1")
      note q = probe_and_refresh_frame [OF probe]
      show ?thesis
      proof (cases r2)
        case (Inl e)
        with first Inr probe True have "get_stream_url E f video_id retry st = (Inl e, st2)"
          by (simp add: get_stream_url_True [OF assms(2)] seq_def)
        with p q show ?thesis by (auto intro: prefix_order.trans)
      next
        case (Inr x)
        obtain r3 st3 where second: "get_stream_url E f video_id False st2 = (r3, st3)"
          by (cases "get_stream_url E f video_id False st2")
        from first \<open>r1 = Inr u\<close> probe Inr True second
        have "get_stream_url E f video_id retry st = (r3, st3)"
          by (simp add: get_stream_url_True [OF assms(2)] seq_def)
        with p q attempt_frame [OF second] show ?thesis by (auto intro: prefix_order.trans)
      qed
    qed
  qed
qed

lemma get_stream_url_one_fetch:
  assumes "isl (Cipher E [])"
  shows "length (filter is_script_fetch (events (snd (get_stream_url E f video_id retry st))))
      \<le> length (filter is_script_fetch (events st)) + 3
    \<and> ((url f = None \<or> url f = Some []) \<and> fst (get_stream_url E f video_id retry st) = Inr (Some u)
        \<longrightarrow> js (snd (get_stream_url E f video_id retry st)) \<noteq> [])"
proof (cases "url f = None \<or> url f = Some []")
  case False
  then obtain p where "url f = Some p" and "p \<noteq> []" by auto
  with False show ?thesis by (simp add: get_stream_url_plain)
next
  case path: True
  obtain r1 st1 where first: "build_url E f video_id st = (r1, st1)"
    by (cases "build_url E f video_id st")
  note n = build_url_script_events [OF first]
  show ?thesis
  proof (cases r1)
    case (Inl e)
    with first have "get_stream_url E f video_id retry st = (Inl e, st1)"
      by (cases retry) (simp_all add: get_stream_url_True [OF path]
          get_stream_url_False [OF path] seq_def)
    with n show ?thesis by simp
  next
    case (Inr w)
    with first have first': "build_url E f video_id st = (Inr w, st1)" by simp
    note script = build_url_leaves_script [OF first' assms]
    show ?thesis
    proof (cases retry)
      case False
      with first' have "get_stream_url E f video_id retry st = (Inr (Some w), st1)"
        by (simp add: get_stream_url_False [OF path] seq_def ok_def)
      with n script show ?thesis by simp
    next
      case True
      obtain r2 st2 where probe: "probe_and_refresh E w st1 = (r2, st2)"
        by (cases "probe_and_refresh E w st1")
      note q = probe_and_refresh_frame [OF probe]
      show ?thesis
      proof (cases r2)
        case (Inl e)
        with first' probe True have "get_stream_url E f video_id retry st = (Inl e, st2)"
          by (simp add: get_stream_url_True [OF path] seq_def)
        with n q show ?thesis by simp
      next
        case (Inr x)
        obtain r3 st3 where second: "get_stream_url E f video_id False st2 = (r3, st3)"
          by (cases "get_stream_url E f video_id False st2")
        from q script have "js st2 \<noteq> []" by simp
        note c = get_stream_url_cached_script [OF second this]
        from first' probe Inr True second
        have "get_stream_url E f video_id retry st = (r3, st3)"
          by (simp add: get_stream_url_True [OF path] seq_def)
        with n q c script show ?thesis by simp
      qed
    qed
  qed
qed

lemma resolve_all_cached_script:
  assumes "js st \<noteq> []"
  shows "js (resolve_all E reqs st) = js st \<and> cipher (resolve_all E reqs st) = cipher st
    \<and> filter is_script_fetch (events (resolve_all E reqs st)) = filter is_script_fetch (events st)"
  using assms
proof (induction reqs arbitrary: st)
  case Nil
  then show ?case by simp
next
  case (Cons req reqs)
  obtain video_id format_code where req: "req = (video_id, format_code)" by (cases req)
  obtain r st1 where run: "stream_url E video_id format_code st = (r, st1)"
    by (cases "stream_url E video_id format_code st")
  note s = stream_url_cached_script [OF run Cons.prems]
  with Cons.prems have "js st1 \<noteq> []" by simp
  from Cons.IH [OF this] s run req show ?case by simp
qed

lemma setup_service_frame:
  "js (snd (setup_service E st)) = js st \<and> cipher (snd (setup_service E st)) = cipher st"
  by (simp add: setup_service_def action_defs split: sum.splits)

lemma get_cipher_fetches:
  assumes "session_get E (events st) (''https://www.youtube.com/embed/'' @ video_id) = Inr html"
    and "js_url E html = Inr ju"
    and "session_get E (events st @ [SessionGet (''https://www.youtube.com/embed/'' @ video_id)]) ju
      = Inr text"
    and "Cipher E text = Inr c"
  shows "get_cipher E video_id st =
    (Inr (), st\<lparr>js := text, cipher := Some c,
       events := events st @ [SessionGet (''https://www.youtube.com/embed/'' @ video_id),
         SessionGet ju, CipherInit text]\<rparr>)"
  using assms by (simp add: get_cipher_def action_defs Let_def)

lemma build_url_first_need:
  assumes "js st = []" and "signatureCipher f = Some b"
    and "session_get E (events st) (''https://www.youtube.com/embed/'' @ video_id) = Inr html"
    and "js_url E html = Inr ju"
    and "session_get E (events st @ [SessionGet (''https://www.youtube.com/embed/'' @ video_id)]) ju
      = Inr text"
    and "Cipher E text = Inr c"
  shows "build_url E f video_id st =
    (map_sum id (\<lambda>sg. parse_signatureCipher (unquote E) b ''url'' @ ''&sig='' @ sg)
       (get_signature E c (parse_signatureCipher (unquote E) b ''s'')),
     st\<lparr>js := text, cipher := Some c,
       events := events st @ [SessionGet (''https://www.youtube.com/embed/'' @ video_id),
         SessionGet ju, CipherInit text,
         CipherGetSignature (parse_signatureCipher (unquote E) b ''s'')]\<rparr>)"
  using assms(1,2) get_cipher_fetches [OF assms(3-6)]
  by (simp add: build_url_def seq_def lift_def call_def log_def ok_def Let_def split: sum.splits)

lemma get_stream_url_first_need:
  assumes "js st = []" and "url f = None \<or> url f = Some []" and "signatureCipher f = Some b"
    and "session_get E (events st) (''https://www.youtube.com/embed/'' @ video_id) = Inr html"
    and "js_url E html = Inr ju"
    and "session_get E (events st @ [SessionGet (''https://www.youtube.com/embed/'' @ video_id)]) ju
      = Inr text"
    and "Cipher E text = Inr c" and "text \<noteq> []"
  shows "js (snd (get_stream_url E f video_id retry st)) = text
    \<and> cipher (snd (get_stream_url E f video_id retry st)) = Some c
    \<and> filter is_script_fetch (events (snd (get_stream_url E f video_id retry st))) =
        filter is_script_fetch (events st) @
          [SessionGet (''https://www.youtube.com/embed/'' @ video_id), SessionGet ju, CipherInit text]"
proof -
  let ?S = "st\<lparr>js := text, cipher := Some c,
       events := events st @ [SessionGet (''https://www.youtube.com/embed/'' @ video_id),
         SessionGet ju, CipherInit text,
         CipherGetSignature (parse_signatureCipher (unquote E) b ''s'')]\<rparr>"
  note first = build_url_first_need [OF assms(1,3-7)]
  have S: "js ?S = text \<and> cipher ?S = Some c
    \<and> filter is_script_fetch (events ?S) = filter is_script_fetch (events st) @
          [SessionGet (''https://www.youtube.com/embed/'' @ video_id), SessionGet ju, CipherInit text]"
    by (simp add: event_kinds)
  show ?thesis
  proof (cases "get_signature E c (parse_signatureCipher (unquote E) b ''s'')")
    case (Inl e)
    with first have "get_stream_url E f video_id retry st = (Inl e, ?S)"
      by (cases retry) (simp_all add: get_stream_url_True [OF assms(2)]
          get_stream_url_False [OF assms(2)] seq_def)
    with S show ?thesis by simp
  next
    case (Inr sg)
    let ?u = "parse_signatureCipher (unquote E) b ''url'' @ ''&sig='' @ sg"
    from first Inr have first': "build_url E f video_id st = (Inr ?u, ?S)" by simp
    show ?thesis
    proof (cases retry)
      case False
      with first' have "get_stream_url E f video_id retry st = (Inr (Some ?u), ?S)"
        by (simp add: get_stream_url_False [OF assms(2)] seq_def ok_def)
      with S show ?thesis by simp
    next
      case True
      obtain r2 st2 where probe: "probe_and_refresh E ?u ?S = (r2, st2)"
        by (cases "probe_and_refresh E ?u ?S")
      note q = probe_and_refresh_frame [OF probe]
      show ?thesis
      proof (cases r2)
        case (Inl e)
        with first' probe True have "get_stream_url E f video_id retry st = (Inl e, st2)"
          by (simp add: get_stream_url_True [OF assms(2)] seq_def)
        with q S show ?thesis by simp
      next
        case (Inr x)
        obtain r3 st3 where second: "get_stream_url E f video_id False st2 = (r3, st3)"
          by (cases "get_stream_url E f video_id False st2")
        from q S assms(8) have "js st2 \<noteq> []" by simp
        note k = get_stream_url_cached_script [OF second this]
        from first' probe Inr True second
        have "get_stream_url E f video_id retry st = (r3, st3)"
          by (simp add: get_stream_url_True [OF assms(2)] seq_def)
        with q k S show ?thesis by simp
      qed
    qed
  qed
qed

lemma get_stream_url_cached_cipher:
  assumes "js st \<noteq> []" and "cipher st = Some c"
    and "url f = None \<or> url f = Some []" and "signatureCipher f = Some b"
    and "get_signature E c (parse_signatureCipher (unquote E) b ''s'') = Inr sg"
  shows "get_stream_url E f video_id False st =
      (Inr (Some (parse_signatureCipher (unquote E) b ''url'' @ ''&sig='' @ sg)),
       log (CipherGetSignature (parse_signatureCipher (unquote E) b ''s'')) st)
    \<and> (probe_and_refresh E (parse_signatureCipher (unquote E) b ''url'' @ ''&sig='' @ sg)
          (log (CipherGetSignature (parse_signatureCipher (unquote E) b ''s'')) st) = (Inr x, st2)
        \<longrightarrow> get_stream_url E f video_id True st =
          (Inr (Some (parse_signatureCipher (unquote E) b ''url'' @ ''&sig='' @ sg)),
           log (CipherGetSignature (parse_signatureCipher (unquote E) b ''s'')) st2))"
proof -
  note first = build_url_again [OF assms(1,2,4,5), of video_id]
  have js1: "js (log (CipherGetSignature (parse_signatureCipher (unquote E) b ''s'')) st) \<noteq> []"
    using assms(1) by (simp add: log_def)
  have "get_stream_url E f video_id True st =
          (Inr (Some (parse_signatureCipher (unquote E) b ''url'' @ ''&sig='' @ sg)),
           log (CipherGetSignature (parse_signatureCipher (unquote E) b ''s'')) st2)"
    if "probe_and_refresh E (parse_signatureCipher (unquote E) b ''url'' @ ''&sig='' @ sg)
          (log (CipherGetSignature (parse_signatureCipher (unquote E) b ''s'')) st) = (Inr x, st2)"
    using retry_run [OF assms(3) first js1 that] assms(4) by auto
  with build_url_attempt [OF assms(3) first] show ?thesis by blast
qed

text \<open>
  C7. The player script and its cipher are fetched by \<^verbatim>\<open>_get_cipher\<close>, which
  \<^verbatim>\<open>_get_stream_url\<close> calls only while \<^verbatim>\<open>_js\<close> is the empty string. Once a script is
  cached, no resolution, of any track and in any number, fetches a script or builds a
  cipher, and the pair is left as it is; so for \<^verbatim>\<open>_get_stream_url\<close> alone. On first need
  (no script yet, a format with a ciphered blob only) the first call to the outside is
  the GET of the track's embed page. With a \<^verbatim>\<open>Cipher\<close> constructor that raises on the
  empty script, one resolution makes at most the three calls of one fetch (two GETs and
  one construction), and a resolution that returns a URL leaves a non-empty script
  cached. The service has no operation that refreshes the script: \<^verbatim>\<open>setup\<close> leaves the
  pair as it is.

  What is fetched and what is reused: when the embed page is answered with \<open>html\<close>, the
  script URL extracted from it is \<open>ju\<close>, the GET of \<open>ju\<close> answers \<open>text\<close> and the cipher
  built from \<open>text\<close> is \<open>c\<close>, then \<^verbatim>\<open>_get_cipher\<close> makes exactly these three calls and
  stores \<open>text\<close> in \<^verbatim>\<open>_js\<close> and \<open>c\<close> in \<^verbatim>\<open>_cipher\<close>. A resolution on first need leaves
  exactly this pair and has made exactly this one fetch, with or without the retry; its
  signature is decoded by \<open>c\<close>; and a following resolution, of any track and format,
  decodes with the same \<open>c\<close> and makes no call but the decode. With a pair cached, a
  resolution decodes with the cached cipher, and with the retry its calls are the
  decode, the probe with its refresh, and the decode again.
\<close>

theorem script_fetched_once:
  "(js st \<noteq> [] \<longrightarrow>
      js (resolve_all E reqs st) = js st \<and> cipher (resolve_all E reqs st) = cipher st
      \<and> filter is_script_fetch (events (resolve_all E reqs st)) = filter is_script_fetch (events st))
   \<and> (js st \<noteq> [] \<longrightarrow>
      js (snd (get_stream_url E f video_id retry st)) = js st
      \<and> cipher (snd (get_stream_url E f video_id retry st)) = cipher st
      \<and> filter is_script_fetch (events (snd (get_stream_url E f video_id retry st))) =
          filter is_script_fetch (events st))
   \<and> (js st = [] \<and> (url f = None \<or> url f = Some []) \<and> signatureCipher f = Some b \<longrightarrow>
      prefix (events st @ [SessionGet (''https://www.youtube.com/embed/'' @ video_id)])
        (events (snd (get_stream_url E f video_id retry st))))
   \<and> (isl (Cipher E []) \<longrightarrow>
      length (filter is_script_fetch (events (snd (get_stream_url E f video_id retry st))))
        \<le> length (filter is_script_fetch (events st)) + 3
      \<and> ((url f = None \<or> url f = Some []) \<and> fst (get_stream_url E f video_id retry st) = Inr (Some u)
          \<longrightarrow> js (snd (get_stream_url E f video_id retry st)) \<noteq> []))
   \<and> js (snd (setup_service E st)) = js st \<and> cipher (snd (setup_service E st)) = cipher st
   \<and> (session_get E (events st) (''https://www.youtube.com/embed/'' @ video_id) = Inr html
        \<and> js_url E html = Inr ju
        \<and> session_get E (events st @ [SessionGet (''https://www.youtube.com/embed/'' @ video_id)]) ju
            = Inr text
        \<and> Cipher E text = Inr c \<longrightarrow>
      get_cipher E video_id st =
        (Inr (), st\<lparr>js := text, cipher := Some c,
           events := events st @ [SessionGet (''https://www.youtube.com/embed/'' @ video_id),
             SessionGet ju, CipherInit text]\<rparr>)
      \<and> (js st = [] \<and> (url f = None \<or> url f = Some []) \<and> signatureCipher f = Some b \<longrightarrow>
          (text \<noteq> [] \<longrightarrow>
             js (snd (get_stream_url E f video_id retry st)) = text
             \<and> cipher (snd (get_stream_url E f video_id retry st)) = Some c
             \<and> filter is_script_fetch (events (snd (get_stream_url E f video_id retry st))) =
                 filter is_script_fetch (events st) @
                   [SessionGet (''https://www.youtube.com/embed/'' @ video_id), SessionGet ju,
                    CipherInit text])
          \<and> (get_signature E c (parse_signatureCipher (unquote E) b ''s'') = Inr sg \<longrightarrow>
             get_stream_url E f video_id False st =
               (Inr (Some (parse_signatureCipher (unquote E) b ''url'' @ ''&sig='' @ sg)),
                st\<lparr>js := text, cipher := Some c,
                   events := events st @ [SessionGet (''https://www.youtube.com/embed/'' @ video_id),
                     SessionGet ju, CipherInit text,
                     CipherGetSignature (parse_signatureCipher (unquote E) b ''s'')]\<rparr>)
             \<and> (text \<noteq> [] \<and> (url f2 = None \<or> url f2 = Some []) \<and> signatureCipher f2 = Some b2
                  \<and> get_signature E c (parse_signatureCipher (unquote E) b2 ''s'') = Inr sg2 \<longrightarrow>
                get_stream_url E f2 video_id2 False (snd (get_stream_url E f video_id False st)) =
                  (Inr (Some (parse_signatureCipher (unquote E) b2 ''url'' @ ''&sig='' @ sg2)),
                   log (CipherGetSignature (parse_signatureCipher (unquote E) b2 ''s''))
                     (snd (get_stream_url E f video_id False st)))))))
   \<and> (js st \<noteq> [] \<and> cipher st = Some c \<and> (url f = None \<or> url f = Some [])
        \<and> signatureCipher f = Some b
        \<and> get_signature E c (parse_signatureCipher (unquote E) b ''s'') = Inr sg \<longrightarrow>
      get_stream_url E f video_id False st =
        (Inr (Some (parse_signatureCipher (unquote E) b ''url'' @ ''&sig='' @ sg)),
         log (CipherGetSignature (parse_signatureCipher (unquote E) b ''s'')) st)
      \<and> (probe_and_refresh E (parse_signatureCipher (unquote E) b ''url'' @ ''&sig='' @ sg)
            (log (CipherGetSignature (parse_signatureCipher (unquote E) b ''s'')) st) = (Inr x, st2)
          \<longrightarrow> get_stream_url E f video_id True st =
            (Inr (Some (parse_signatureCipher (unquote E) b ''url'' @ ''&sig='' @ sg)),
             log (CipherGetSignature (parse_signatureCipher (unquote E) b ''s'')) st2)))"
proof -
  have one: "js (snd (get_stream_url E f video_id retry st)) = js st
      \<and> cipher (snd (get_stream_url E f video_id retry st)) = cipher st
      \<and> filter is_script_fetch (events (snd (get_stream_url E f video_id retry st))) =
          filter is_script_fetch (events st)"
    if "js st \<noteq> []"
  proof -
    obtain r st' where run: "get_stream_url E f video_id retry st = (r, st')"
      by (cases "get_stream_url E f video_id retry st")
    from get_stream_url_cached_script [OF run that] run show ?thesis by simp
  qed
  have first_need: "get_stream_url E f video_id False st =
               (Inr (Some (parse_signatureCipher (unquote E) b ''url'' @ ''&sig='' @ sg)),
                st\<lparr>js := text, cipher := Some c,
                   events := events st @ [SessionGet (''https://www.youtube.com/embed/'' @ video_id),
                     SessionGet ju, CipherInit text,
                     CipherGetSignature (parse_signatureCipher (unquote E) b ''s'')]\<rparr>)
             \<and> (text \<noteq> [] \<and> (url f2 = None \<or> url f2 = Some []) \<and> signatureCipher f2 = Some b2
                  \<and> get_signature E c (parse_signatureCipher (unquote E) b2 ''s'') = Inr sg2 \<longrightarrow>
                get_stream_url E f2 video_id2 False (snd (get_stream_url E f video_id False st)) =
                  (Inr (Some (parse_signatureCipher (unquote E) b2 ''url'' @ ''&sig='' @ sg2)),
                   log (CipherGetSignature (parse_signatureCipher (unquote E) b2 ''s''))
                     (snd (get_stream_url E f video_id False st))))"
    if fetch: "session_get E (events st) (''https://www.youtube.com/embed/'' @ video_id) = Inr html"
        "js_url E html = Inr ju"
        "session_get E (events st @ [SessionGet (''https://www.youtube.com/embed/'' @ video_id)]) ju
            = Inr text"
        "Cipher E text = Inr c"
      and need: "js st = []" "url f = None \<or> url f = Some []" "signatureCipher f = Some b"
      and sg: "get_signature E c (parse_signatureCipher (unquote E) b ''s'') = Inr sg"
  proof -
    let ?S = "st\<lparr>js := text, cipher := Some c,
                   events := events st @ [SessionGet (''https://www.youtube.com/embed/'' @ video_id),
                     SessionGet ju, CipherInit text,
                     CipherGetSignature (parse_signatureCipher (unquote E) b ''s'')]\<rparr>"
    from build_url_first_need [OF need(1,3) fetch] sg
    have "build_url E f video_id st =
        (Inr (parse_signatureCipher (unquote E) b ''url'' @ ''&sig='' @ sg), ?S)"
      by simp
    from build_url_attempt [OF need(2) this]
    have run: "get_stream_url E f video_id False st =
        (Inr (Some (parse_signatureCipher (unquote E) b ''url'' @ ''&sig='' @ sg)), ?S)" .
    have "get_stream_url E f2 video_id2 False ?S =
                  (Inr (Some (parse_signatureCipher (unquote E) b2 ''url'' @ ''&sig='' @ sg2)),
                   log (CipherGetSignature (parse_signatureCipher (unquote E) b2 ''s'')) ?S)"
      if "text \<noteq> []" and "url f2 = None \<or> url f2 = Some []" and "signatureCipher f2 = Some b2"
        and "get_signature E c (parse_signatureCipher (unquote E) b2 ''s'') = Inr sg2"
    proof -
      have j: "js ?S \<noteq> []" using that(1) by simp
      have k: "cipher ?S = Some c" by simp
      from get_stream_url_cached_cipher [OF j k that(2,3,4)] show ?thesis by blast
    qed
    with run show ?thesis by simp
  qed
  note a = resolve_all_cached_script [of st E reqs]
  note b = get_stream_url_first_fetch [of st f b video_id E retry]
  note c = get_stream_url_one_fetch [of E f video_id retry st u]
  note d = setup_service_frame [of E st]
  note e = get_cipher_fetches [of E st video_id html ju "text" c]
  note g = get_stream_url_first_need [of st f b E video_id html ju "text" c retry]
  note h = get_stream_url_cached_cipher [of st c f b E sg video_id x st2]
  show ?thesis
    apply (intro conjI)
    subgoal using a by blast
    subgoal using one by blast
    subgoal using b by blast
    subgoal using c by blast
    subgoal using d by blast
    subgoal using d by blast
    subgoal using e g first_need by blast
    subgoal using h by blast
    done
qed


theorem script_fetched_once_witness:
  "js (resolve_all (demo_env 403) [(''abc123'', 250), (''other'', 251)] demo_cached) =
      ''GET https://y/player.js''
   \<and> filter is_script_fetch
       (events (resolve_all (demo_env 403) [(''abc123'', 250), (''other'', 251)] demo_cached)) = []
   \<and> filter is_script_fetch
       (events (snd (get_stream_url (demo_env 403) (demo_ciphered 1) ''other'' True demo_cached))) = []
   \<and> prefix [ApiGetSignatureTimestamp, SessionGet ''https://www.youtube.com/embed/abc123'']
       (events (snd (get_stream_url (demo_env 403) (demo_ciphered 1) ''abc123'' True demo_state)))
   \<and> length (filter is_script_fetch
       (events (snd (get_stream_url (demo_env 403) (demo_ciphered 1) ''abc123'' True demo_state)))) \<le> 3
   \<and> js (snd (get_stream_url (demo_env 403) (demo_ciphered 1) ''abc123'' True demo_state)) \<noteq> []
   \<and> get_cipher (demo_env 403) ''abc123'' demo_state =
       (Inr (), demo_state\<lparr>js := ''GET https://y/player.js'', cipher := Some (),
          events := [ApiGetSignatureTimestamp, SessionGet ''https://www.youtube.com/embed/abc123'',
            SessionGet ''https://y/player.js'', CipherInit ''GET https://y/player.js'']\<rparr>)
   \<and> js (snd (get_stream_url (demo_env 403) (demo_ciphered 1) ''abc123'' True demo_state)) =
       ''GET https://y/player.js''
   \<and> cipher (snd (get_stream_url (demo_env 403) (demo_ciphered 1) ''abc123'' True demo_state)) =
       Some ()
   \<and> filter is_script_fetch
       (events (snd (get_stream_url (demo_env 403) (demo_ciphered 1) ''abc123'' True demo_state))) =
       [SessionGet ''https://www.youtube.com/embed/abc123'', SessionGet ''https://y/player.js'',
        CipherInit ''GET https://y/player.js'']
   \<and> get_stream_url (demo_env 403) (demo_ciphered 1) ''abc123'' False demo_state =
       (Inr (Some ''https://y/base&sig=ZYX''),
        demo_state\<lparr>js := ''GET https://y/player.js'', cipher := Some (),
          events := [ApiGetSignatureTimestamp, SessionGet ''https://www.youtube.com/embed/abc123'',
            SessionGet ''https://y/player.js'', CipherInit ''GET https://y/player.js'',
            CipherGetSignature ''XYZ'']\<rparr>)
   \<and> fst (get_stream_url (demo_env 403) demo_query ''other'' False
         (snd (get_stream_url (demo_env 403) (demo_ciphered 1) ''abc123'' False demo_state))) =
       Inr (Some ''https://y/base?ids=7&sig=7=sdi?esab/y//:sptth=l'')
   \<and> events (snd (get_stream_url (demo_env 403) demo_query ''other'' False
         (snd (get_stream_url (demo_env 403) (demo_ciphered 1) ''abc123'' False demo_state)))) =
       [ApiGetSignatureTimestamp, SessionGet ''https://www.youtube.com/embed/abc123'',
        SessionGet ''https://y/player.js'', CipherInit ''GET https://y/player.js'',
        CipherGetSignature ''XYZ'', CipherGetSignature ''l=https://y/base?ids=7'']
   \<and> get_stream_url (demo_env 403) (demo_ciphered 1) ''other'' False demo_cached =
       (Inr (Some ''https://y/base&sig=ZYX''),
        demo_cached\<lparr>events := [ApiGetSignatureTimestamp, CipherGetSignature ''XYZ'']\<rparr>)
   \<and> get_stream_url (demo_env 403) (demo_ciphered 1) ''other'' True demo_cached =
       (Inr (Some ''https://y/base&sig=ZYX''),
        demo_cached\<lparr>signature_timestamp := 2,
          events := [ApiGetSignatureTimestamp, CipherGetSignature ''XYZ'',
            SessionHead ''https://y/base&sig=ZYX'', ApiGetSignatureTimestamp,
            CipherGetSignature ''XYZ'']\<rparr>)"
proof -
  let ?E = "demo_env 403"
  let ?reqs = "[(''abc123'', 250), (''other'', 251)]"
  let ?embed = "''https://www.youtube.com/embed/abc123''"
  let ?blob = "''s=XYZ&url=https://y/base''"
  let ?blob2 = "''s=XYZ&url=https://y/base?ids=7''"
  have j: "js demo_cached \<noteq> []" and jv: "js demo_cached = ''GET https://y/player.js''"
    and cv: "cipher demo_cached = Some ()"
    and ev: "filter is_script_fetch (events demo_cached) = []"
    and ec: "events demo_cached = [ApiGetSignatureTimestamp]"
    by (simp_all add: demo_cached_def demo_state_def event_kinds)
  have j0: "js demo_state = []" and e0: "events demo_state = [ApiGetSignatureTimestamp]"
    by (simp_all add: demo_state_def)
  have p: "url (demo_ciphered 1) = None \<or> url (demo_ciphered 1) = Some []"
    and b: "signatureCipher (demo_ciphered 1) = Some ?blob"
    by (simp_all add: demo_ciphered_def)
  have p2: "url demo_query = None \<or> url demo_query = Some []"
    and b2: "signatureCipher demo_query = Some ?blob2"
    by (simp_all add: demo_query_def)
  have c: "isl (Cipher ?E [])" by (simp add: demo_env_def)
  have uq: "unquote ?E = (\<lambda>s. s)" by (simp add: demo_env_def)
  have f1: "session_get ?E (events demo_state) (''https://www.youtube.com/embed/'' @ ''abc123'') =
      Inr ''GET https://www.youtube.com/embed/abc123''"
    and f2: "js_url ?E ''GET https://www.youtube.com/embed/abc123'' = Inr ''https://y/player.js''"
    and f3: "session_get ?E
        (events demo_state @ [SessionGet (''https://www.youtube.com/embed/'' @ ''abc123'')])
        ''https://y/player.js'' = Inr ''GET https://y/player.js''"
    and f4: "Cipher ?E ''GET https://y/player.js'' = Inr ()"
    and f5: "''GET https://y/player.js'' \<noteq> []"
    by (simp_all add: demo_env_def)
  have g1: "get_signature ?E () (parse_signatureCipher (unquote ?E) ?blob ''s'') = Inr ''ZYX''"
    by (simp add: uq demo_parse_s) (simp add: demo_env_def)
  have g2: "get_signature ?E () (parse_signatureCipher (unquote ?E) ?blob2 ''s'') =
      Inr ''7=sdi?esab/y//:sptth=l''"
    by (simp add: uq demo_query_parse_s) (simp add: demo_env_def)
  have r: "fst (get_stream_url ?E (demo_ciphered 1) ''abc123'' True demo_state) =
      Inr (Some ''https://y/base&sig=ZYX'')"
    using demo_get_stream_url [OF j0 _ b, of 403]
    by (simp add: demo_ciphered_def demo_parse_s demo_parse_url)
  have pr: "probe_and_refresh ?E
      (parse_signatureCipher (unquote ?E) ?blob ''url'' @ ''&sig='' @ ''ZYX'')
      (log (CipherGetSignature (parse_signatureCipher (unquote ?E) ?blob ''s'')) demo_cached) =
      (Inr (), demo_cached\<lparr>signature_timestamp := 2,
          events := [ApiGetSignatureTimestamp, CipherGetSignature ''XYZ'',
            SessionHead ''https://y/base&sig=ZYX'', ApiGetSignatureTimestamp]\<rparr>)"
    by (simp add: demo_probe uq demo_parse_s demo_parse_url log_def ec event_kinds)
  note cached = script_fetched_once [where st = demo_cached and E = ?E and reqs = ?reqs
      and f = "demo_ciphered 1" and video_id = "''other''" and retry = True and c = "()"
      and b = ?blob and sg = "''ZYX''" and x = "()"
      and ?st2.0 = "demo_cached\<lparr>signature_timestamp := 2,
          events := [ApiGetSignatureTimestamp, CipherGetSignature ''XYZ'',
            SessionHead ''https://y/base&sig=ZYX'', ApiGetSignatureTimestamp]\<rparr>"]
  note fresh = script_fetched_once [where st = demo_state and E = ?E and reqs = ?reqs
      and f = "demo_ciphered 1" and video_id = "''abc123''" and retry = True
      and b = ?blob and u = "''https://y/base&sig=ZYX''"
      and html = "''GET https://www.youtube.com/embed/abc123''" and ju = "''https://y/player.js''"
      and ?text = "''GET https://y/player.js''" and c = "()" and sg = "''ZYX''"
      and ?f2.0 = demo_query and ?video_id2.0 = "''other''" and ?b2.0 = ?blob2
      and ?sg2.0 = "''7=sdi?esab/y//:sptth=l''"]
  from cached j
  have one: "js (resolve_all ?E ?reqs demo_cached) = js demo_cached
    \<and> filter is_script_fetch (events (resolve_all ?E ?reqs demo_cached)) =
        filter is_script_fetch (events demo_cached)
    \<and> filter is_script_fetch (events (snd (get_stream_url ?E (demo_ciphered 1) ''other'' True
          demo_cached))) = filter is_script_fetch (events demo_cached)"
    by blast
  from fresh j0 p b c r
  have two: "prefix (events demo_state @ [SessionGet (''https://www.youtube.com/embed/'' @ ''abc123'')])
        (events (snd (get_stream_url ?E (demo_ciphered 1) ''abc123'' True demo_state)))
    \<and> length (filter is_script_fetch
         (events (snd (get_stream_url ?E (demo_ciphered 1) ''abc123'' True demo_state))))
        \<le> length (filter is_script_fetch (events demo_state)) + 3
    \<and> js (snd (get_stream_url ?E (demo_ciphered 1) ''abc123'' True demo_state)) \<noteq> []"
    by blast
  from fresh f1 f2 f3 f4
  have three: "get_cipher ?E ''abc123'' demo_state =
        (Inr (), demo_state\<lparr>js := ''GET https://y/player.js'', cipher := Some (),
           events := events demo_state @ [SessionGet (''https://www.youtube.com/embed/'' @ ''abc123''),
             SessionGet ''https://y/player.js'', CipherInit ''GET https://y/player.js'']\<rparr>)"
    by blast
  from fresh f1 f2 f3 f4 f5 j0 p b
  have four: "js (snd (get_stream_url ?E (demo_ciphered 1) ''abc123'' True demo_state)) =
        ''GET https://y/player.js''
      \<and> cipher (snd (get_stream_url ?E (demo_ciphered 1) ''abc123'' True demo_state)) = Some ()
      \<and> filter is_script_fetch (events (snd (get_stream_url ?E (demo_ciphered 1) ''abc123'' True
            demo_state))) =
          filter is_script_fetch (events demo_state) @
            [SessionGet (''https://www.youtube.com/embed/'' @ ''abc123''),
             SessionGet ''https://y/player.js'', CipherInit ''GET https://y/player.js'']"
    by blast
  note fresh' = script_fetched_once [where st = demo_state and E = ?E and reqs = ?reqs
      and f = "demo_ciphered 1" and video_id = "''abc123''" and retry = False
      and b = ?blob and u = "''https://y/base&sig=ZYX''"
      and html = "''GET https://www.youtube.com/embed/abc123''" and ju = "''https://y/player.js''"
      and ?text = "''GET https://y/player.js''" and c = "()" and sg = "''ZYX''"
      and ?f2.0 = demo_query and ?video_id2.0 = "''other''" and ?b2.0 = ?blob2
      and ?sg2.0 = "''7=sdi?esab/y//:sptth=l''"]
  from fresh' f1 f2 f3 f4 f5 j0 p b g1 p2 b2 g2
  have five: "get_stream_url ?E (demo_ciphered 1) ''abc123'' False demo_state =
        (Inr (Some (parse_signatureCipher (unquote ?E) ?blob ''url'' @ ''&sig='' @ ''ZYX'')),
         demo_state\<lparr>js := ''GET https://y/player.js'', cipher := Some (),
           events := events demo_state @ [SessionGet (''https://www.youtube.com/embed/'' @ ''abc123''),
             SessionGet ''https://y/player.js'', CipherInit ''GET https://y/player.js'',
             CipherGetSignature (parse_signatureCipher (unquote ?E) ?blob ''s'')]\<rparr>)"
    and six: "get_stream_url ?E demo_query ''other'' False
          (snd (get_stream_url ?E (demo_ciphered 1) ''abc123'' False demo_state)) =
        (Inr (Some (parse_signatureCipher (unquote ?E) ?blob2 ''url'' @ ''&sig=''
             @ ''7=sdi?esab/y//:sptth=l'')),
         log (CipherGetSignature (parse_signatureCipher (unquote ?E) ?blob2 ''s''))
           (snd (get_stream_url ?E (demo_ciphered 1) ''abc123'' False demo_state)))"
    by blast+
  from cached j cv p b g1 pr
  have seven: "get_stream_url ?E (demo_ciphered 1) ''other'' False demo_cached =
        (Inr (Some (parse_signatureCipher (unquote ?E) ?blob ''url'' @ ''&sig='' @ ''ZYX'')),
         log (CipherGetSignature (parse_signatureCipher (unquote ?E) ?blob ''s'')) demo_cached)"
    and eight: "get_stream_url ?E (demo_ciphered 1) ''other'' True demo_cached =
        (Inr (Some (parse_signatureCipher (unquote ?E) ?blob ''url'' @ ''&sig='' @ ''ZYX'')),
         log (CipherGetSignature (parse_signatureCipher (unquote ?E) ?blob ''s''))
           (demo_cached\<lparr>signature_timestamp := 2,
          events := [ApiGetSignatureTimestamp, CipherGetSignature ''XYZ'',
            SessionHead ''https://y/base&sig=ZYX'', ApiGetSignatureTimestamp]\<rparr>))"
    by blast+
  have six': "fst (get_stream_url ?E demo_query ''other'' False
          (snd (get_stream_url ?E (demo_ciphered 1) ''abc123'' False demo_state))) =
       Inr (Some ''https://y/base?ids=7&sig=7=sdi?esab/y//:sptth=l'')
     \<and> events (snd (get_stream_url ?E demo_query ''other'' False
          (snd (get_stream_url ?E (demo_ciphered 1) ''abc123'' False demo_state)))) =
       [ApiGetSignatureTimestamp, SessionGet ''https://www.youtube.com/embed/abc123'',
        SessionGet ''https://y/player.js'', CipherInit ''GET https://y/player.js'',
        CipherGetSignature ''XYZ'', CipherGetSignature ''l=https://y/base?ids=7'']"
    unfolding six unfolding five
    by (simp add: uq demo_parse_s demo_parse_url demo_query_parse_s demo_query_parse_url log_def e0)
  have five': "get_stream_url ?E (demo_ciphered 1) ''abc123'' False demo_state =
       (Inr (Some ''https://y/base&sig=ZYX''),
        demo_state\<lparr>js := ''GET https://y/player.js'', cipher := Some (),
          events := [ApiGetSignatureTimestamp, SessionGet ''https://www.youtube.com/embed/abc123'',
            SessionGet ''https://y/player.js'', CipherInit ''GET https://y/player.js'',
            CipherGetSignature ''XYZ'']\<rparr>)"
    unfolding five by (simp add: uq demo_parse_s demo_parse_url e0)
  have seven': "get_stream_url ?E (demo_ciphered 1) ''other'' False demo_cached =
       (Inr (Some ''https://y/base&sig=ZYX''),
        demo_cached\<lparr>events := [ApiGetSignatureTimestamp, CipherGetSignature ''XYZ'']\<rparr>)"
    unfolding seven by (simp add: uq demo_parse_s demo_parse_url log_def ec)
  have eight': "get_stream_url ?E (demo_ciphered 1) ''other'' True demo_cached =
       (Inr (Some ''https://y/base&sig=ZYX''),
        demo_cached\<lparr>signature_timestamp := 2,
          events := [ApiGetSignatureTimestamp, CipherGetSignature ''XYZ'',
            SessionHead ''https://y/base&sig=ZYX'', ApiGetSignatureTimestamp,
            CipherGetSignature ''XYZ'']\<rparr>)"
    unfolding eight by (simp add: uq demo_parse_s demo_parse_url log_def)
  have three': "get_cipher ?E ''abc123'' demo_state =
       (Inr (), demo_state\<lparr>js := ''GET https://y/player.js'', cipher := Some (),
          events := [ApiGetSignatureTimestamp, SessionGet ''https://www.youtube.com/embed/abc123'',
            SessionGet ''https://y/player.js'', CipherInit ''GET https://y/player.js'']\<rparr>)"
    unfolding three by (simp add: e0)
  have old: "js (resolve_all ?E ?reqs demo_cached) = ''GET https://y/player.js''
   \<and> filter is_script_fetch (events (resolve_all ?E ?reqs demo_cached)) = []
   \<and> filter is_script_fetch
       (events (snd (get_stream_url ?E (demo_ciphered 1) ''other'' True demo_cached))) = []
   \<and> prefix [ApiGetSignatureTimestamp, SessionGet ''https://www.youtube.com/embed/abc123'']
       (events (snd (get_stream_url ?E (demo_ciphered 1) ''abc123'' True demo_state)))
   \<and> length (filter is_script_fetch
       (events (snd (get_stream_url ?E (demo_ciphered 1) ''abc123'' True demo_state)))) \<le> 3
   \<and> js (snd (get_stream_url ?E (demo_ciphered 1) ''abc123'' True demo_state)) \<noteq> []"
    using one two by (simp add: jv ev e0 event_kinds)
  have four': "js (snd (get_stream_url ?E (demo_ciphered 1) ''abc123'' True demo_state)) =
       ''GET https://y/player.js''
   \<and> cipher (snd (get_stream_url ?E (demo_ciphered 1) ''abc123'' True demo_state)) = Some ()
   \<and> filter is_script_fetch
       (events (snd (get_stream_url ?E (demo_ciphered 1) ''abc123'' True demo_state))) =
       [SessionGet ''https://www.youtube.com/embed/abc123'', SessionGet ''https://y/player.js'',
        CipherInit ''GET https://y/player.js'']"
    using four by (simp add: e0 event_kinds)
  from old three' four' five' six' seven' eight' show ?thesis by blast
qed

section \<open>Blobs that are parsed field by field\<close>

text \<open>
  The blob \<^verbatim>\<open>s=X&url=Y\<close> is read as its two values when \<^verbatim>\<open>s=\<close> does not occur in the
  field \<^verbatim>\<open>url=Y\<close>; one attempt then gives \<^verbatim>\<open>unquote(Y) + "&sig=" + decode(unquote(X))\<close>.
\<close>

lemma split_on_no_separator: "c \<notin> set a \<Longrightarrow> split_on c a = [a]"
  by (induction a) auto

lemma split_on_field: "c \<notin> set a \<Longrightarrow> split_on c (a @ c # rest) = a # split_on c rest"
  by (induction a) auto

lemma str_find_at_start: "str_find (p @ s) p = 0"
proof (cases "p @ s")
  case Nil
  then show ?thesis by (simp add: str_find_def)
next
  case (Cons x xs)
  have "prefix p (p @ s)" by simp
  with Cons have "prefix p (x # xs)" by simp
  with Cons show ?thesis by (simp add: str_find_def)
qed

lemma parse_two_fields:
  assumes "CHR ''&'' \<notin> set X" and "CHR ''&'' \<notin> set Y"
    and "str_find (''url='' @ Y) ''s='' < 0"
  shows "parse_signatureCipher unq (''s='' @ X @ ''&url='' @ Y) ''s'' = unq X
    \<and> parse_signatureCipher unq (''s='' @ X @ ''&url='' @ Y) ''url'' = unq Y"
proof -
  have "CHR ''&'' \<notin> set (''s='' @ X)" using assms(1) by simp
  from split_on_field [OF this, of "''url='' @ Y"]
  have "split_on CHR ''&'' (''s='' @ X @ ''&url='' @ Y) = (''s='' @ X) # split_on CHR ''&'' (''url='' @ Y)"
    by simp
  moreover have "split_on CHR ''&'' (''url='' @ Y) = [''url='' @ Y]"
    using assms(2) by (intro split_on_no_separator) simp
  ultimately have fields: "split_on CHR ''&'' (''s='' @ X @ ''&url='' @ Y) = [''s='' @ X, ''url='' @ Y]"
    by simp
  have s: "str_find (''s='' @ X) ''s='' = 0" by (rule str_find_at_start)
  have u: "str_find (''url='' @ Y) ''url='' = 0" by (rule str_find_at_start)
  have ds: "drop 2 (''s='' @ X) = X" and du: "drop 4 (''url='' @ Y) = Y" by simp_all
  show ?thesis
    unfolding parse_signatureCipher_def fields
    using assms(3) s u ds du
    by (simp add: parse_sig_def parse_key_def res_keys_def res_init_def)
qed

lemma ciphered_blob_attempt:
  assumes "url f = None \<or> url f = Some []"
    and "signatureCipher f = Some (''s='' @ X @ ''&url='' @ Y)"
    and "CHR ''&'' \<notin> set X" and "CHR ''&'' \<notin> set Y"
    and "str_find (''url='' @ Y) ''s='' < 0"
    and "js st \<noteq> []" and "cipher st = Some c"
    and "get_signature E c (unquote E X) = Inr sg"
  shows "get_stream_url E f video_id False st =
    (Inr (Some (unquote E Y @ ''&sig='' @ sg)), log (CipherGetSignature (unquote E X)) st)"
proof -
  note p = parse_two_fields [OF assms(3-5), of "unquote E"]
  from assms(8) p
  have "get_signature E c (parse_signatureCipher (unquote E) (''s='' @ X @ ''&url='' @ Y) ''s'') = Inr sg"
    by simp
  from build_url_again [OF assms(6,7,2) this, of video_id] p
  have "build_url E f video_id st =
      (Inr (unquote E Y @ ''&sig='' @ sg), log (CipherGetSignature (unquote E X)) st)"
    by simp
  from build_url_attempt [OF assms(1) this] show ?thesis .
qed

end
